theory Spec2Isabelle
  imports Main "HOL-Library.Char_ord" "HOL-Library.List_Lexorder" "HOL-Library.Product_Lexorder"
begin

section \<open>Strings\<close>

text \<open>
  Column names and report types are Python \<open>str\<close> values. They are modelled as
  \<open>string\<close>; \<open>lower\<close> is \<open>str.lower()\<close> on ASCII letters (every other byte is
  kept), and \<open>contains sub s\<close> is the Python test \<open>sub in s\<close>.
\<close>

definition lower_char :: "char \<Rightarrow> char" where
  "lower_char c =
     (if c = CHR ''A'' then CHR ''a''
      else if c = CHR ''B'' then CHR ''b''
      else if c = CHR ''C'' then CHR ''c''
      else if c = CHR ''D'' then CHR ''d''
      else if c = CHR ''E'' then CHR ''e''
      else if c = CHR ''F'' then CHR ''f''
      else if c = CHR ''G'' then CHR ''g''
      else if c = CHR ''H'' then CHR ''h''
      else if c = CHR ''I'' then CHR ''i''
      else if c = CHR ''J'' then CHR ''j''
      else if c = CHR ''K'' then CHR ''k''
      else if c = CHR ''L'' then CHR ''l''
      else if c = CHR ''M'' then CHR ''m''
      else if c = CHR ''N'' then CHR ''n''
      else if c = CHR ''O'' then CHR ''o''
      else if c = CHR ''P'' then CHR ''p''
      else if c = CHR ''Q'' then CHR ''q''
      else if c = CHR ''R'' then CHR ''r''
      else if c = CHR ''S'' then CHR ''s''
      else if c = CHR ''T'' then CHR ''t''
      else if c = CHR ''U'' then CHR ''u''
      else if c = CHR ''V'' then CHR ''v''
      else if c = CHR ''W'' then CHR ''w''
      else if c = CHR ''X'' then CHR ''x''
      else if c = CHR ''Y'' then CHR ''y''
      else if c = CHR ''Z'' then CHR ''z''
      else c)"

definition lower :: "string \<Rightarrow> string" where
  "lower s = map lower_char s"

fun starts_with :: "string \<Rightarrow> string \<Rightarrow> bool" where
  "starts_with [] s = True"
| "starts_with (a # as) [] = False"
| "starts_with (a # as) (b # bs) = (a = b \<and> starts_with as bs)"

fun contains :: "string \<Rightarrow> string \<Rightarrow> bool" where
  "contains sub [] = (sub = [])"
| "contains sub (c # cs) = (starts_with sub (c # cs) \<or> contains sub cs)"

text \<open>Python truthiness of an \<open>Optional[str]\<close>: \<open>None\<close> and the empty string are false.\<close>

fun truthy :: "string option \<Rightarrow> bool" where
  "truthy None = False"
| "truthy (Some s) = (s \<noteq> [])"

section \<open>Column resolution\<close>

text \<open>
  The six local variables \<open>comm_long\<close>, \<dots>, \<open>small_short\<close> of
  \<open>plot_trader_positions\<close>, each \<open>None\<close> or a column name.
\<close>

record roles =
  comm_long :: "string option"
  comm_short :: "string option"
  noncomm_long :: "string option"
  noncomm_short :: "string option"
  small_long :: "string option"
  small_short :: "string option"

definition no_roles :: roles where
  "no_roles = \<lparr>comm_long = None, comm_short = None, noncomm_long = None,
     noncomm_short = None, small_long = None, small_short = None\<rparr>"

text \<open>The tests on the lower-cased column name that both passes share.\<close>

definition is_long :: "string \<Rightarrow> bool" where
  "is_long col_lower = (contains ''long'' col_lower \<and> contains ''(all)'' col_lower)"

definition is_short :: "string \<Rightarrow> bool" where
  "is_short col_lower = (contains ''short'' col_lower \<and> contains ''(all)'' col_lower)"

definition is_commercial :: "string \<Rightarrow> bool" where
  "is_commercial col_lower =
     (contains ''commercial'' col_lower \<and> \<not> contains ''noncommercial'' col_lower)"

definition is_noncommercial :: "string \<Rightarrow> bool" where
  "is_noncommercial col_lower =
     (contains ''noncommercial'' col_lower \<and> \<not> contains ''spreading'' col_lower)"

definition is_nonreportable :: "string \<Rightarrow> bool" where
  "is_nonreportable col_lower = contains ''nonreportable'' col_lower"

text \<open>The body of the first loop (the "Positions" pass): every match overwrites.\<close>

definition pass1_step :: "roles \<Rightarrow> string \<Rightarrow> roles" where
  "pass1_step r col =
     (let col_lower = lower col in
      if contains ''positions'' col_lower then
        if is_commercial col_lower then
          if is_long col_lower then r\<lparr>comm_long := Some col\<rparr>
          else if is_short col_lower then r\<lparr>comm_short := Some col\<rparr>
          else r
        else if is_noncommercial col_lower then
          if is_long col_lower then r\<lparr>noncomm_long := Some col\<rparr>
          else if is_short col_lower then r\<lparr>noncomm_short := Some col\<rparr>
          else r
        else if is_nonreportable col_lower then
          if is_long col_lower then r\<lparr>small_long := Some col\<rparr>
          else if is_short col_lower then r\<lparr>small_short := Some col\<rparr>
          else r
        else r
      else r)"

text \<open>The body of the second loop (the "Traders" pass): a filled role is not overwritten.\<close>

definition pass2_step :: "roles \<Rightarrow> string \<Rightarrow> roles" where
  "pass2_step r col =
     (let col_lower = lower col in
      if contains ''trader'' col_lower then
        if is_commercial col_lower then
          if is_long col_lower \<and> \<not> truthy (comm_long r) then r\<lparr>comm_long := Some col\<rparr>
          else if is_short col_lower \<and> \<not> truthy (comm_short r) then r\<lparr>comm_short := Some col\<rparr>
          else r
        else if is_noncommercial col_lower then
          if is_long col_lower \<and> \<not> truthy (noncomm_long r) then r\<lparr>noncomm_long := Some col\<rparr>
          else if is_short col_lower \<and> \<not> truthy (noncomm_short r)
            then r\<lparr>noncomm_short := Some col\<rparr>
          else r
        else if is_nonreportable col_lower then
          if is_long col_lower \<and> \<not> truthy (small_long r) then r\<lparr>small_long := Some col\<rparr>
          else if is_short col_lower \<and> \<not> truthy (small_short r) then r\<lparr>small_short := Some col\<rparr>
          else r
        else r
      else r)"

definition pass1 :: "string list \<Rightarrow> roles" where
  "pass1 cols = foldl pass1_step no_roles cols"

definition pass2 :: "roles \<Rightarrow> string list \<Rightarrow> roles" where
  "pass2 r cols = foldl pass2_step r cols"

text \<open>
  Both passes as the function runs them: the second loop is entered only when
  \<open>noncomm_long\<close> or \<open>noncomm_short\<close> is still false after the first.
\<close>

definition resolve :: "string list \<Rightarrow> roles" where
  "resolve cols =
     (let r = pass1 cols in
      if \<not> truthy (noncomm_long r) \<or> \<not> truthy (noncomm_short r) then pass2 r cols else r)"

section \<open>Tables\<close>

text \<open>
  A pandas cell is a number, a string or missing (\<open>NaN\<close>, \<open>NaT\<close>, \<open>None\<close>).
  A number is a whole number held as an \<open>int64\<close>, as the position counts are; a
  timestamp is the integer pandas stores for it. Fractions and booleans are not among
  the cells. A row maps a column name to its cell and is \<open>Null\<close> at every name that is
  not a column of its table; a table is its ordered column names and its rows.
\<close>

datatype cell = Num int | Str string | Null

type_synonym row = "string \<Rightarrow> cell"

record table =
  columns :: "string list"
  rows :: "row list"

datatype error =
    ValueError string | ParserError | IndexError | TypeError | KeyError | AttributeError

fun bind_result :: "error + 'a \<Rightarrow> ('a \<Rightarrow> error + 'b) \<Rightarrow> error + 'b" where
  "bind_result (Inl err) f = Inl err"
| "bind_result (Inr x) f = f x"

fun map_result :: "('a \<Rightarrow> error + 'b) \<Rightarrow> 'a list \<Rightarrow> error + 'b list" where
  "map_result f [] = Inr []"
| "map_result f (x # xs) =
     bind_result (f x) (\<lambda>y. bind_result (map_result f xs) (\<lambda>ys. Inr (y # ys)))"

text \<open>\<open>df.empty\<close>: one of the two axes has length zero.\<close>

definition df_empty :: "table \<Rightarrow> bool" where
  "df_empty t = (rows t = [] \<or> columns t = [])"

text \<open>\<open>df[df[col] == v]\<close>: a missing cell equals nothing, not even itself.\<close>

definition cell_eq :: "cell \<Rightarrow> cell \<Rightarrow> bool" where
  "cell_eq a b = (a = b \<and> a \<noteq> Null)"

definition select_eq :: "table \<Rightarrow> string \<Rightarrow> cell \<Rightarrow> table" where
  "select_eq t col v = t\<lparr>rows := filter (\<lambda>r. cell_eq (r col) v) (rows t)\<rparr>"

text \<open>
  \<open>df[name] = values\<close>: an existing column is replaced in place, a new one is
  appended; the values are computed row by row.
\<close>

definition set_column :: "table \<Rightarrow> string \<Rightarrow> (row \<Rightarrow> cell) \<Rightarrow> table" where
  "set_column t name f =
     \<lparr>columns = (if name \<in> set (columns t) then columns t else columns t @ [name]),
      rows = map (\<lambda>r. r(name := f r)) (rows t)\<rparr>"

text \<open>The two dtypes that a numeric column of whole numbers can have.\<close>

datatype dtype = Int64 | Float64

text \<open>
  What the program takes from its surroundings: how pandas parses a string as a
  number (\<open>None\<close>: it cannot; otherwise the whole number, and \<open>Float64\<close> when the
  string is written as a float) and as a timestamp (\<open>None\<close>: it cannot), the two
  strings that \<open>datetime.now()\<close> yields for today and for \<open>5*365\<close> days earlier,
  and the whole number held by the \<open>float64\<close> nearest to a whole number of magnitude
  above \<open>2^53\<close>.
\<close>

record env =
  parse_number :: "string \<Rightarrow> (dtype \<times> int) option"
  parse_date :: "string \<Rightarrow> int option"
  today :: string
  five_years_ago :: string
  big_float :: "int \<Rightarrow> int"

text \<open>\<open>pd.to_datetime\<close> on a cell; an unparsable string raises.\<close>

fun to_datetime :: "env \<Rightarrow> cell \<Rightarrow> error + cell" where
  "to_datetime e (Num n) = Inr (Num n)"
| "to_datetime e Null = Inr Null"
| "to_datetime e (Str s) =
     (case parse_date e s of None \<Rightarrow> Inl ParserError | Some n \<Rightarrow> Inr (Num n))"

definition to_datetime_column :: "env \<Rightarrow> string \<Rightarrow> table \<Rightarrow> error + table" where
  "to_datetime_column e col t =
     bind_result
       (map_result (\<lambda>r. bind_result (to_datetime e (r col)) (\<lambda>v. Inr (r(col := v)))) (rows t))
       (\<lambda>rs. Inr (t\<lparr>rows := rs\<rparr>))"

text \<open>\<open>series >= ts\<close> and \<open>series <= ts\<close> on a timestamp column: false at \<open>NaT\<close>.\<close>

fun cell_ge :: "cell \<Rightarrow> cell \<Rightarrow> bool" where
  "cell_ge (Num a) (Num b) = (a \<ge> b)"
| "cell_ge _ _ = False"

fun cell_le :: "cell \<Rightarrow> cell \<Rightarrow> bool" where
  "cell_le (Num a) (Num b) = (a \<le> b)"
| "cell_le _ _ = False"

text \<open>
  \<open>sort_values(col)\<close>: ascending, missing cells last. Numbers and strings cannot be
  compared with each other, so a column holding both raises. Rows with equal keys keep
  their order here; pandas leaves their order open.
\<close>

fun is_Num :: "cell \<Rightarrow> bool" where
  "is_Num (Num n) = True"
| "is_Num _ = False"

fun is_Str :: "cell \<Rightarrow> bool" where
  "is_Str (Str s) = True"
| "is_Str _ = False"

fun num_key :: "cell \<Rightarrow> bool \<times> int" where
  "num_key (Num n) = (False, n)"
| "num_key _ = (True, 0)"

fun str_key :: "cell \<Rightarrow> bool \<times> string" where
  "str_key (Str s) = (False, s)"
| "str_key _ = (True, [])"

definition sort_values :: "string \<Rightarrow> table \<Rightarrow> error + table" where
  "sort_values col t =
     (let present = filter (\<lambda>v. v \<noteq> Null) (map (\<lambda>r. r col) (rows t)) in
      if list_all is_Num present then Inr (t\<lparr>rows := sort_key (\<lambda>r. num_key (r col)) (rows t)\<rparr>)
      else if list_all is_Str present
        then Inr (t\<lparr>rows := sort_key (\<lambda>r. str_key (r col)) (rows t)\<rparr>)
      else Inl TypeError)"

section \<open>Net positions\<close>

text \<open>
  Arithmetic on the two dtypes. An \<open>int64\<close> difference wraps around; a whole number
  of magnitude up to \<open>2^53\<close> is a \<open>float64\<close> exactly and a larger one is rounded;
  a \<open>float64\<close> difference is the exact difference, rounded.
\<close>

definition wrap64 :: "int \<Rightarrow> int" where
  "wrap64 x = (x + 2 ^ 63) mod 2 ^ 64 - 2 ^ 63"

definition to_float64 :: "env \<Rightarrow> int \<Rightarrow> int" where
  "to_float64 e n = (if \<bar>n\<bar> \<le> 2 ^ 53 then n else big_float e n)"

definition as_float :: "env \<Rightarrow> dtype \<Rightarrow> int \<Rightarrow> int" where
  "as_float e dt n = (case dt of Int64 \<Rightarrow> to_float64 e n | Float64 \<Rightarrow> n)"

text \<open>
  \<open>pd.to_numeric(series, errors='coerce')\<close> on one cell (\<open>None\<close>: \<open>NaN\<close>), and the
  dtype of the result for the whole column: \<open>int64\<close> when every cell is an integer,
  \<open>float64\<close> as soon as one cell is missing, unparsable or written as a float.
\<close>

definition to_numeric :: "env \<Rightarrow> cell \<Rightarrow> (dtype \<times> int) option" where
  "to_numeric e v =
     (case v of
        Num n \<Rightarrow> Some (Int64, n)
      | Str s \<Rightarrow> parse_number e s
      | Null \<Rightarrow> None)"

definition col_dtype :: "env \<Rightarrow> cell list \<Rightarrow> dtype" where
  "col_dtype e cells =
     (if list_all (\<lambda>v. case to_numeric e v of None \<Rightarrow> False | Some p \<Rightarrow> fst p = Int64) cells
      then Int64 else Float64)"

text \<open>
  \<open>pd.to_numeric(series, errors='coerce').fillna(0)\<close> on one cell of a column of the
  given dtype: a \<open>NaN\<close> becomes zero, a number of a \<open>float64\<close> column is a float.
\<close>

definition coerce_cell :: "env \<Rightarrow> dtype \<Rightarrow> cell \<Rightarrow> cell" where
  "coerce_cell e dt v =
     (case to_numeric e v of
        None \<Rightarrow> Num 0
      | Some p \<Rightarrow> (case dt of Int64 \<Rightarrow> Num (snd p) | Float64 \<Rightarrow> Num (to_float64 e (snd p))))"

text \<open>\<open>long - short\<close> on one row, for columns of the given dtypes.\<close>

fun sub_cell :: "env \<Rightarrow> dtype \<Rightarrow> dtype \<Rightarrow> cell \<Rightarrow> cell \<Rightarrow> cell" where
  "sub_cell e dl ds (Num a) (Num b) =
     Num (if dl = Int64 \<and> ds = Int64 then wrap64 (a - b)
          else to_float64 e (as_float e dl a - as_float e ds b))"
| "sub_cell e dl ds _ _ = Null"

text \<open>The cells of a column, top to bottom; a name that occurs twice among the columns.\<close>

definition column :: "table \<Rightarrow> string \<Rightarrow> cell list" where
  "column t c = map (\<lambda>r. r c) (rows t)"

definition duplicated :: "string \<Rightarrow> string list \<Rightarrow> bool" where
  "duplicated c cols = (1 < length (filter (\<lambda>x. x = c) cols))"

text \<open>
  \<open>plot_df[c] = pd.to_numeric(plot_df[c], errors='coerce').fillna(0)\<close>, with the dtype
  of the new column. A name that is not a column raises \<open>KeyError\<close>; under a name that
  occurs twice \<open>plot_df[c]\<close> is a frame, on which \<open>pd.to_numeric\<close> raises
  \<open>TypeError\<close>.
\<close>

definition to_numeric_fillna :: "env \<Rightarrow> table \<Rightarrow> string \<Rightarrow> error + dtype \<times> table" where
  "to_numeric_fillna e t c =
     (if c \<notin> set (columns t) then Inl KeyError
      else if duplicated c (columns t) then Inl TypeError
      else (let dt = col_dtype e (column t c)
            in Inr (dt, set_column t c (\<lambda>r. coerce_cell e dt (r c)))))"

text \<open>An entry of \<open>trader_data\<close>: label, derived column, colour.\<close>

type_synonym series = "string \<times> string \<times> string"

text \<open>
  One of the three \<open>if long and short:\<close> blocks: both source columns are coerced in
  the working table, their difference is stored under \<open>net\<close>, the entry is appended.
  When both roles name the same column, the second coercion finds it already numeric
  and leaves it and its dtype as they are.
\<close>

definition add_net ::
  "env \<Rightarrow> string option \<Rightarrow> string option \<Rightarrow> string \<Rightarrow> series \<Rightarrow>
     table \<times> series list \<Rightarrow> error + table \<times> series list" where
  "add_net e long short net entry st =
     (case (long, short) of
        (Some l, Some s) \<Rightarrow>
          if l \<noteq> [] \<and> s \<noteq> [] then
            bind_result (to_numeric_fillna e (fst st) l) (\<lambda>c1.
            bind_result (to_numeric_fillna e (snd c1) s) (\<lambda>c2.
              let dl = fst c1;
                  ds = (if s = l then dl else fst c2)
              in Inr (set_column (snd c2) net (\<lambda>r. sub_cell e dl ds (r l) (r s)),
                      snd st @ [entry])))
          else Inr st
      | _ \<Rightarrow> Inr st)"

definition derive :: "env \<Rightarrow> roles \<Rightarrow> table \<Rightarrow> error + table \<times> series list" where
  "derive e r plot_df =
     bind_result
       (add_net e (comm_long r) (comm_short r) ''Commercial_Net''
          (''Large Commercials'', ''Commercial_Net'', ''red'') (plot_df, []))
       (\<lambda>st1.
     bind_result
       (add_net e (noncomm_long r) (noncomm_short r) ''NonCommercial_Net''
          (''Large Speculators'', ''NonCommercial_Net'', ''blue'') st1)
       (\<lambda>st2.
     add_net e (small_long r) (small_short r) ''NonReportable_Net''
       (''Small Speculators'', ''NonReportable_Net'', ''yellow'') st2))"

section \<open>The identifier and date columns\<close>

definition find_contract_col :: "string list \<Rightarrow> string option" where
  "find_contract_col cols =
     find (\<lambda>col. contains ''market'' (lower col) \<or> contains ''contract'' (lower col)) cols"

definition find_date_col :: "string list \<Rightarrow> string option" where
  "find_date_col cols =
     find (\<lambda>col. contains ''date'' (lower col) \<and> contains ''yyyy'' (lower col)) cols"

section \<open>plot_trader_positions\<close>

text \<open>
  What the function prints, and what it leaves behind: the lines printed, the entries
  of \<open>trader_data\<close>, the working table \<open>plot_df\<close> and whether the chart was drawn.
\<close>

datatype message =
    NoDataFound string
  | NoPositionColumns string
  | AvailableColumns "string list"
  | NotSupported string
  | NoContractColumn string

record outcome =
  printed :: "message list"
  trader_data :: "series list"
  plot_df :: table
  drawn :: bool

definition filter_from :: "env \<Rightarrow> string \<Rightarrow> string option \<Rightarrow> table \<Rightarrow> error + table" where
  "filter_from e col start_date t =
     (case start_date of
        None \<Rightarrow> Inr t
      | Some d \<Rightarrow>
          if d = [] then Inr t
          else bind_result (to_datetime e (Str d))
                 (\<lambda>ts. Inr (t\<lparr>rows := filter (\<lambda>r. cell_ge (r col) ts) (rows t)\<rparr>)))"

definition filter_to :: "env \<Rightarrow> string \<Rightarrow> string option \<Rightarrow> table \<Rightarrow> error + table" where
  "filter_to e col end_date t =
     (case end_date of
        None \<Rightarrow> Inr t
      | Some d \<Rightarrow>
          if d = [] then Inr t
          else bind_result (to_datetime e (Str d))
                 (\<lambda>ts. Inr (t\<lparr>rows := filter (\<lambda>r. cell_le (r col) ts) (rows t)\<rparr>)))"

text \<open>
  The date handling of the function: the date column as timestamps, the date range
  (the last five years when neither bound is given), the rows in date order.
\<close>

definition prepare ::
  "env \<Rightarrow> string \<Rightarrow> string option \<Rightarrow> string option \<Rightarrow> table \<Rightarrow> error + table" where
  "prepare e date_col start_date end_date t0 =
     bind_result (to_datetime_column e date_col t0) (\<lambda>t1.
       let default = (\<not> truthy start_date \<and> \<not> truthy end_date);
           end_date' = (if default then Some (today e) else end_date);
           start_date' = (if default then Some (five_years_ago e) else start_date)
       in
       bind_result (filter_from e date_col start_date' t1) (\<lambda>t2.
       bind_result (filter_to e date_col end_date' t2) (\<lambda>t3.
       sort_values date_col t3)))"

text \<open>The legacy branch: resolution, derivation, and the chart or the two lines.\<close>

definition plot_legacy :: "env \<Rightarrow> string \<Rightarrow> table \<Rightarrow> error + outcome" where
  "plot_legacy e report_type t =
     bind_result (derive e (resolve (columns t)) t) (\<lambda>d.
       if snd d = [] then
         Inr \<lparr>printed = [NoPositionColumns report_type, AvailableColumns (columns (fst d))],
              trader_data = [], plot_df = fst d, drawn = False\<rparr>
       else Inr \<lparr>printed = [], trader_data = snd d, plot_df = fst d, drawn = True\<rparr>)"

definition plot_trader_positions ::
  "env \<Rightarrow> table \<Rightarrow> string \<Rightarrow> string \<Rightarrow> string option \<Rightarrow> string option \<Rightarrow> error + outcome" where
  "plot_trader_positions e df contract_name report_type start_date end_date =
     (case find_date_col (columns df) of
        None \<Rightarrow> Inl (ValueError ''Could not find date column in dataframe'')
      | Some date_col \<Rightarrow>
     (case find_contract_col (columns df) of
        None \<Rightarrow> Inl (ValueError ''Could not find contract column in dataframe'')
      | Some contract_col \<Rightarrow>
     (let t0 = select_eq df contract_col (Str contract_name) in
      if df_empty t0 then
        Inr \<lparr>printed = [NoDataFound contract_name], trader_data = [], plot_df = t0,
             drawn = False\<rparr>
      else
        bind_result (prepare e date_col start_date end_date t0) (\<lambda>t4.
          if contains ''legacy'' (lower report_type) then plot_legacy e report_type t4
          else Inr \<lparr>printed = [NotSupported report_type], trader_data = [], plot_df = t4,
                    drawn = False\<rparr>))))"

section \<open>COTDataManager\<close>

text \<open>\<open>series.unique()\<close>: the distinct values in order of first appearance.\<close>

definition unique :: "'a list \<Rightarrow> 'a list" where
  "unique xs = rev (remdups (rev xs))"

text \<open>
  \<open>sorted(values)\<close>: strings among themselves and numbers among themselves are
  ordered, and a string next to anything else raises \<open>TypeError\<close>. With a \<open>NaN\<close>
  among numbers nothing is raised, but every comparison with it is false, so the
  arrangement that comes back depends on the order going in: it is left to
  \<open>nan_sorted\<close>, which the functions take as given.
\<close>

fun the_Str :: "cell \<Rightarrow> string" where
  "the_Str (Str s) = s"
| "the_Str _ = []"

fun the_Num :: "cell \<Rightarrow> int" where
  "the_Num (Num n) = n"
| "the_Num _ = 0"

definition py_sorted :: "(cell list \<Rightarrow> cell list) \<Rightarrow> cell list \<Rightarrow> error + cell list" where
  "py_sorted nan_sorted xs =
     (if length xs \<le> 1 then Inr xs
      else if list_all is_Str xs then Inr (sort_key the_Str xs)
      else if list_all is_Num xs then Inr (sort_key the_Num xs)
      else if list_ex is_Str xs then Inl TypeError
      else Inr (nan_sorted xs))"

text \<open>
  \<open>self.dataframes\<close> is a dict in insertion order: a list of distinct keys with their
  tables. Under a column name that occurs twice \<open>df[col]\<close> is a frame, which has no
  \<open>unique\<close>: \<open>AttributeError\<close>.
\<close>

definition get_available_contracts ::
  "(cell list \<Rightarrow> cell list) \<Rightarrow> (string \<times> table) list \<Rightarrow> string \<Rightarrow> error + cell list" where
  "get_available_contracts nan_sorted dataframes report_type =
     (case map_of dataframes report_type of
        None \<Rightarrow> Inr []
      | Some df \<Rightarrow>
          if df_empty df then Inr []
          else (case find_contract_col (columns df) of
                  None \<Rightarrow> Inr []
                | Some col \<Rightarrow>
                    if duplicated col (columns df) then Inl AttributeError
                    else py_sorted nan_sorted (unique (map (\<lambda>r. r col) (rows df)))))"

text \<open>
  \<open>pd.concat([a, b])\<close>: the columns of \<open>a\<close>, then the new ones of \<open>b\<close>; the rows of
  \<open>a\<close>, then those of \<open>b\<close>, each missing at the columns its own table lacks.
\<close>

definition reindex :: "string list \<Rightarrow> row \<Rightarrow> row" where
  "reindex cols r = (\<lambda>c. if c \<in> set cols then r c else Null)"

definition concat_tables :: "table \<Rightarrow> table \<Rightarrow> table" where
  "concat_tables a b =
     \<lparr>columns = columns a @ filter (\<lambda>c. c \<notin> set (columns a)) (columns b),
      rows = map (reindex (columns a)) (rows a) @ map (reindex (columns b)) (rows b)\<rparr>"

text \<open>\<open>drop_duplicates(subset=[col], keep='last')\<close>: a row goes when a later row has its key.\<close>

fun dedup_last :: "('a \<Rightarrow> 'k) \<Rightarrow> 'a list \<Rightarrow> 'a list" where
  "dedup_last f [] = []"
| "dedup_last f (x # xs) =
     (if f x \<in> f ` set xs then dedup_last f xs else x # dedup_last f xs)"

definition drop_duplicates_last :: "string \<Rightarrow> table \<Rightarrow> table" where
  "drop_duplicates_last col t = t\<lparr>rows := dedup_last (\<lambda>r. r col) (rows t)\<rparr>"

text \<open>The body of \<open>for contract in unique_contracts\<close>.\<close>

definition merge_contract ::
  "table \<Rightarrow> string \<Rightarrow> (cell \<rightharpoonup> table) \<Rightarrow> cell \<Rightarrow> error + (cell \<rightharpoonup> table)" where
  "merge_contract df contract_col consolidated contract =
     (let contract_data = select_eq df contract_col contract in
      case consolidated contract of
        Some old \<Rightarrow>
          (case filter (\<lambda>col. contains ''date'' (lower col)) (columns contract_data) of
             [] \<Rightarrow> Inl IndexError
           | date_col # _ \<Rightarrow>
               bind_result
                 (sort_values date_col
                    (drop_duplicates_last date_col (concat_tables old contract_data)))
                 (\<lambda>t. Inr (consolidated(contract \<mapsto> t))))
      | None \<Rightarrow> Inr (consolidated(contract \<mapsto> contract_data)))"

fun fold_result :: "('s \<Rightarrow> 'a \<Rightarrow> error + 's) \<Rightarrow> 's \<Rightarrow> 'a list \<Rightarrow> error + 's" where
  "fold_result f s [] = Inr s"
| "fold_result f s (x # xs) = bind_result (f s x) (\<lambda>s'. fold_result f s' xs)"

text \<open>
  The body of \<open>for report_type, df in self.dataframes.items()\<close>; the state is the
  dict \<open>consolidated\<close> and the warnings printed so far. The two progress lines
  that the function prints around the loop are left out.
\<close>

definition consolidate_table ::
  "(cell \<rightharpoonup> table) \<times> message list \<Rightarrow> string \<times> table \<Rightarrow>
     error + (cell \<rightharpoonup> table) \<times> message list" where
  "consolidate_table st item =
     (let report_type = fst item; df = snd item in
      if df_empty df then Inr st
      else (case find_contract_col (columns df) of
              None \<Rightarrow> Inr (fst st, snd st @ [NoContractColumn report_type])
            | Some contract_col \<Rightarrow>
                bind_result
                  (fold_result (merge_contract df contract_col) (fst st)
                     (unique (map (\<lambda>r. r contract_col) (rows df))))
                  (\<lambda>c. Inr (c, snd st))))"

definition consolidate_by_contract ::
  "(string \<times> table) list \<Rightarrow> error + (cell \<rightharpoonup> table) \<times> message list" where
  "consolidate_by_contract dataframes = fold_result consolidate_table (Map.empty, []) dataframes"

section \<open>Vocabulary for the statements\<close>

text \<open>
  The three trader categories, the category that the \<open>if\<close>/\<open>elif\<close> chain of either
  pass picks for a lower-cased column name, and the role variables by category.
\<close>

datatype category = Commercial | NonCommercial | NonReportable

definition cat_of :: "string \<Rightarrow> category option" where
  "cat_of col_lower =
     (if is_commercial col_lower then Some Commercial
      else if is_noncommercial col_lower then Some NonCommercial
      else if is_nonreportable col_lower then Some NonReportable
      else None)"

fun long_of :: "category \<Rightarrow> roles \<Rightarrow> string option" where
  "long_of Commercial r = comm_long r"
| "long_of NonCommercial r = noncomm_long r"
| "long_of NonReportable r = small_long r"

fun short_of :: "category \<Rightarrow> roles \<Rightarrow> string option" where
  "short_of Commercial r = comm_short r"
| "short_of NonCommercial r = noncomm_short r"
| "short_of NonReportable r = small_short r"

definition long_rule :: "string \<Rightarrow> category \<Rightarrow> string \<Rightarrow> bool" where
  "long_rule kw k col =
     (contains kw (lower col) \<and> cat_of (lower col) = Some k \<and> is_long (lower col))"

definition short_rule :: "string \<Rightarrow> category \<Rightarrow> string \<Rightarrow> bool" where
  "short_rule kw k col =
     (contains kw (lower col) \<and> cat_of (lower col) = Some k \<and> is_short (lower col))"

definition short_only_rule :: "string \<Rightarrow> category \<Rightarrow> string \<Rightarrow> bool" where
  "short_only_rule kw k col = (short_rule kw k col \<and> \<not> is_long (lower col))"

definition last_match :: "('a \<Rightarrow> bool) \<Rightarrow> 'a list \<Rightarrow> 'a option" where
  "last_match P xs = find P (rev xs)"

definition short_candidates :: "category \<Rightarrow> string list \<Rightarrow> string list" where
  "short_candidates k cols =
     (case find (long_rule ''trader'' k) cols of None \<Rightarrow> cols | Some c \<Rightarrow> remove1 c cols)"

definition pass2_runs :: "string list \<Rightarrow> bool" where
  "pass2_runs cols =
     (last_match (long_rule ''positions'' NonCommercial) cols = None \<or>
      last_match (short_only_rule ''positions'' NonCommercial) cols = None)"


text \<open>The derived column of each category, and the three of them.\<close>

fun net_column :: "category \<Rightarrow> string" where
  "net_column Commercial = ''Commercial_Net''"
| "net_column NonCommercial = ''NonCommercial_Net''"
| "net_column NonReportable = ''NonReportable_Net''"

definition net_names :: "string list" where
  "net_names = [''Commercial_Net'', ''NonCommercial_Net'', ''NonReportable_Net'']"

text \<open>
  The source columns of a category whose pair is complete, and those of all three
  categories: the columns that derivation coerces to numbers.
\<close>

definition pair_columns :: "string option \<Rightarrow> string option \<Rightarrow> string list" where
  "pair_columns long short =
     (case (long, short) of
        (Some l, Some s) \<Rightarrow> if l \<noteq> [] \<and> s \<noteq> [] then [l, s] else []
      | _ \<Rightarrow> [])"

definition source_columns :: "roles \<Rightarrow> string list" where
  "source_columns r =
     pair_columns (comm_long r) (comm_short r) @
     pair_columns (noncomm_long r) (noncomm_short r) @
     pair_columns (small_long r) (small_short r)"

text \<open>
  The number that coercion reads in a cell, zero where there is none; a column after
  coercion; the net column computed from a Long and a Short column.
\<close>

definition numeric :: "env \<Rightarrow> cell \<Rightarrow> int" where
  "numeric e v = (case to_numeric e v of None \<Rightarrow> 0 | Some p \<Rightarrow> snd p)"

definition coerced :: "env \<Rightarrow> cell list \<Rightarrow> cell list" where
  "coerced e cs = map (coerce_cell e (col_dtype e cs)) cs"

definition net_of :: "env \<Rightarrow> cell list \<Rightarrow> cell list \<Rightarrow> cell list" where
  "net_of e cl cs =
     map (\<lambda>(a, b). sub_cell e (col_dtype e cl) (col_dtype e cs) a b)
       (zip (coerced e cl) (coerced e cs))"

text \<open>Counts for which neither dtype loses anything: within \<open>2^53\<close>, as is their difference.\<close>

definition exact_pair :: "int \<Rightarrow> int \<Rightarrow> bool" where
  "exact_pair x y = (\<bar>x\<bar> \<le> 2 ^ 53 \<and> \<bar>y\<bar> \<le> 2 ^ 53 \<and> \<bar>x - y\<bar> \<le> 2 ^ 53)"











text \<open>
  The runs of \<open>plot_trader_positions\<close> whose dates convert: every date cell of the
  contract's rows, and each bound of the date range that is in force, is something
  \<open>pd.to_datetime\<close> accepts.
\<close>

definition converts :: "env \<Rightarrow> cell \<Rightarrow> bool" where
  "converts e v = (case v of Str s \<Rightarrow> parse_date e s \<noteq> None | _ \<Rightarrow> True)"

definition bound_converts :: "env \<Rightarrow> string option \<Rightarrow> bool" where
  "bound_converts e d = (case d of None \<Rightarrow> True | Some s \<Rightarrow> s = [] \<or> parse_date e s \<noteq> None)"

definition dates_convert ::
  "env \<Rightarrow> string \<Rightarrow> string option \<Rightarrow> string option \<Rightarrow> table \<Rightarrow> bool" where
  "dates_convert e date_col start_date end_date t =
     (list_all (\<lambda>r. converts e (r date_col)) (rows t) \<and>
      (if \<not> truthy start_date \<and> \<not> truthy end_date
       then bound_converts e (Some (five_years_ago e)) \<and> bound_converts e (Some (today e))
       else bound_converts e start_date \<and> bound_converts e end_date))"

section \<open>Concrete inputs\<close>

text \<open>The table of the end-to-end example: legacy columns in their short form, one row.\<close>

definition gold_columns :: "string list" where
  "gold_columns = [''Market_and_Exchange_Names'', ''Report_Date_as_YYYY-MM-DD'',
     ''Comm_Positions_Long_All'', ''Comm_Positions_Short_All'']"

definition gold_row :: row where
  "gold_row = (\<lambda>c. Null)
     (''Market_and_Exchange_Names'' := Str ''GOLD'',
      ''Report_Date_as_YYYY-MM-DD'' := Str ''2024-01-02'',
      ''Comm_Positions_Long_All'' := Num 1000,
      ''Comm_Positions_Short_All'' := Num 400)"

definition gold_table :: table where
  "gold_table = \<lparr>columns = gold_columns, rows = [gold_row]\<rparr>"

text \<open>
  A run on 2026-11-04: dates are parsed to days since 1970-01-01, no string is a
  number, and \<open>2^53 + 1\<close> is rounded to \<open>2^53\<close> as a float.
\<close>

definition env0 :: env where
  "env0 = \<lparr>parse_number = (\<lambda>s. None),
     parse_date = (\<lambda>s. if s = ''2024-01-02'' then Some 19724
                        else if s = ''2021-11-05'' then Some 18936
                        else if s = ''2026-11-04'' then Some 20761
                        else None),
     today = ''2026-11-04'', five_years_ago = ''2021-11-05'',
     big_float = (\<lambda>n. if n = 9007199254740993 then 9007199254740992 else n)\<rparr>"

text \<open>Two columns that both pass the first-pass test for Commercial-Long.\<close>

definition dup_columns :: "string list" where
  "dup_columns = [''Commercial Positions-Long (All)'', ''Commercial Positions-Long (All) revised'']"

text \<open>Trader-count columns only, two of them for Commercial-Long.\<close>

definition trader_columns :: "string list" where
  "trader_columns = [''Traders-Commercial-Long (All)'', ''Traders-Commercial-Long (All) revised'',
     ''Traders-Commercial-Short (All)'']"

text \<open>
  Position columns for Noncommercial, trader-count columns for Commercial.
\<close>

definition gated_columns :: "string list" where
  "gated_columns = [''Noncommercial Positions-Long (All)'', ''Noncommercial Positions-Short (All)'',
     ''Traders-Commercial-Long (All)'', ''Traders-Commercial-Short (All)'']"

text \<open>
  Position columns for Commercial, trader-count columns for Commercial and Noncommercial.
\<close>

definition mixed_columns :: "string list" where
  "mixed_columns = [''Traders-Commercial-Long (All)'', ''Commercial Positions-Long (All)'',
     ''Traders-Noncommercial-Long (All)'', ''Traders-Noncommercial-Short (All)'']"

text \<open>A single trader-count column whose name holds both ``Long'' and ``Short''.\<close>

definition both_columns :: "string list" where
  "both_columns = [''Traders-Commercial-Long-Short (All)'']"

text \<open>Two report types whose tables name the contract but carry no date column.\<close>

definition undated_a :: table where
  "undated_a = \<lparr>columns = [''Market'', ''Value''],
     rows = [(\<lambda>c. Null)(''Market'' := Str ''GOLD'', ''Value'' := Num 1)]\<rparr>"

definition undated_b :: table where
  "undated_b = \<lparr>columns = [''Market'', ''Value''],
     rows = [(\<lambda>c. Null)(''Market'' := Str ''GOLD'', ''Value'' := Num 2)]\<rparr>"

text \<open>
  The same contract under the long column names of the legacy report; the second row
  has the CFTC's dot for a missing count.
\<close>

definition legacy_columns :: "string list" where
  "legacy_columns = [''Market_and_Exchange_Names'', ''Report_Date_as_YYYY-MM-DD'',
     ''Commercial Positions-Long (All)'', ''Commercial Positions-Short (All)'']"

definition legacy_row :: row where
  "legacy_row = (\<lambda>c. Null)
     (''Market_and_Exchange_Names'' := Str ''GOLD'',
      ''Report_Date_as_YYYY-MM-DD'' := Str ''2024-01-02'',
      ''Commercial Positions-Long (All)'' := Num 1000,
      ''Commercial Positions-Short (All)'' := Num 400)"

definition dotted_row :: row where
  "dotted_row = (\<lambda>c. Null)
     (''Market_and_Exchange_Names'' := Str ''GOLD'',
      ''Report_Date_as_YYYY-MM-DD'' := Str ''2024-01-02'',
      ''Commercial Positions-Long (All)'' := Str ''.'',
      ''Commercial Positions-Short (All)'' := Num 400)"

definition legacy_table :: table where
  "legacy_table = \<lparr>columns = legacy_columns, rows = [legacy_row]\<rparr>"

definition dotted_table :: table where
  "dotted_table = \<lparr>columns = legacy_columns, rows = [dotted_row]\<rparr>"

text \<open>
  Counts at the edge of the dtypes: the largest \<open>int64\<close> beside \<open>-1\<close>; and
  \<open>2^53 + 1\<close> in a column that also holds the dot, so that the column is coerced to
  \<open>float64\<close>.
\<close>

definition wide_table :: table where
  "wide_table = \<lparr>columns = legacy_columns,
     rows = [legacy_row(''Commercial Positions-Long (All)'' := Num 9223372036854775807,
                        ''Commercial Positions-Short (All)'' := Num (- 1))]\<rparr>"

definition rounded_table :: table where
  "rounded_table = \<lparr>columns = legacy_columns,
     rows = [legacy_row(''Commercial Positions-Long (All)'' := Num 9007199254740993,
                        ''Commercial Positions-Short (All)'' := Num 0),
             legacy_row(''Commercial Positions-Long (All)'' := Str ''.'',
                        ''Commercial Positions-Short (All)'' := Num 0)]\<rparr>"

text \<open>The legacy table with the name of its Long column a second time among the columns.\<close>

definition repeated_table :: table where
  "repeated_table = \<lparr>columns = legacy_columns @ [''Commercial Positions-Long (All)''],
     rows = [legacy_row]\<rparr>"

text \<open>The table of the end-to-end example with a date that does not parse.\<close>

definition misdated_table :: table where
  "misdated_table = \<lparr>columns = gold_columns,
     rows = [gold_row(''Report_Date_as_YYYY-MM-DD'' := Str ''n/a'')]\<rparr>"

text \<open>A table with a date column and no identifier column.\<close>

definition unnamed_table :: table where
  "unnamed_table = \<lparr>columns = [''Report_Date_as_YYYY-MM-DD'', ''Open_Interest_All''],
     rows = [(\<lambda>c. Null)(''Report_Date_as_YYYY-MM-DD'' := Str ''2024-01-02'',
       ''Open_Interest_All'' := Num 5)]\<rparr>"

text \<open>Three rows of two contracts.\<close>

definition contracts_table :: table where
  "contracts_table = \<lparr>columns = [''Market_and_Exchange_Names'', ''Open_Interest_All''],
     rows = [(\<lambda>c. Null)(''Market_and_Exchange_Names'' := Str ''SILVER'', ''Open_Interest_All'' := Num 1),
             (\<lambda>c. Null)(''Market_and_Exchange_Names'' := Str ''GOLD'', ''Open_Interest_All'' := Num 2),
             (\<lambda>c. Null)(''Market_and_Exchange_Names'' := Str ''SILVER'', ''Open_Interest_All'' := Num 3)]\<rparr>"

text \<open>
  The same with a missing identifier in a fourth row, and with the identifier column
  named twice.
\<close>

definition anonymous_table :: table where
  "anonymous_table =
     contracts_table\<lparr>rows := rows contracts_table @ [(\<lambda>c. Null)(''Open_Interest_All'' := Num 4)]\<rparr>"

definition twice_named_table :: table where
  "twice_named_table =
     contracts_table\<lparr>columns := columns contracts_table @ [''Market_and_Exchange_Names'']\<rparr>"






section \<open>The two passes, role by role\<close>

lemma contains_Nil: "sub \<noteq> [] \<Longrightarrow> \<not> contains sub []"
  by simp

lemma contains_lower_nonempty: "sub \<noteq> [] \<Longrightarrow> contains sub (lower c) \<Longrightarrow> c \<noteq> []"
  by (auto simp: lower_def)

lemma long_rule_nonempty: "kw \<noteq> [] \<Longrightarrow> long_rule kw k c \<Longrightarrow> c \<noteq> []"
  unfolding long_rule_def using contains_lower_nonempty by blast

lemma short_rule_nonempty: "kw \<noteq> [] \<Longrightarrow> short_rule kw k c \<Longrightarrow> c \<noteq> []"
  unfolding short_rule_def using contains_lower_nonempty by blast

lemma pass1_step_long:
  "long_of k (pass1_step r col) =
     (if long_rule ''positions'' k col then Some col else long_of k r)"
  by (cases k) (simp_all add: pass1_step_def long_rule_def cat_of_def Let_def)

lemma pass1_step_short:
  "short_of k (pass1_step r col) =
     (if short_only_rule ''positions'' k col then Some col else short_of k r)"
  by (cases k) (simp_all add: pass1_step_def short_only_rule_def short_rule_def cat_of_def Let_def)

lemma pass2_step_long:
  "long_of k (pass2_step r col) =
     (if long_rule ''trader'' k col \<and> \<not> truthy (long_of k r) then Some col else long_of k r)"
  by (cases k) (simp_all add: pass2_step_def long_rule_def cat_of_def Let_def)

lemma pass2_step_short:
  "short_of k (pass2_step r col) =
     (if short_rule ''trader'' k col \<and> \<not> (long_rule ''trader'' k col \<and> \<not> truthy (long_of k r))
         \<and> \<not> truthy (short_of k r)
      then Some col else short_of k r)"
  by (cases k) (auto simp add: pass2_step_def short_rule_def long_rule_def cat_of_def Let_def)

lemma pass1_snoc: "pass1 (cols @ [c]) = pass1_step (pass1 cols) c"
  by (simp add: pass1_def)

lemma pass1_long: "long_of k (pass1 cols) = last_match (long_rule ''positions'' k) cols"
proof (induction cols rule: rev_induct)
  case Nil
  show ?case by (cases k) (simp_all add: pass1_def no_roles_def last_match_def)
next
  case (snoc c cols)
  then show ?case by (simp add: pass1_snoc pass1_step_long last_match_def)
qed

lemma pass1_short: "short_of k (pass1 cols) = last_match (short_only_rule ''positions'' k) cols"
proof (induction cols rule: rev_induct)
  case Nil
  show ?case by (cases k) (simp_all add: pass1_def no_roles_def last_match_def)
next
  case (snoc c cols)
  then show ?case by (simp add: pass1_snoc pass1_step_short last_match_def)
qed

lemma find_SomeD: "find P xs = Some x \<Longrightarrow> P x \<and> x \<in> set xs"
  by (auto simp: find_Some_iff)

lemma last_match_SomeD: "last_match P xs = Some x \<Longrightarrow> P x \<and> x \<in> set xs"
  unfolding last_match_def using find_SomeD[of P "rev xs" x] by simp

lemma truthy_pass1_long:
  "truthy (long_of k (pass1 cols)) \<longleftrightarrow> last_match (long_rule ''positions'' k) cols \<noteq> None"
proof (cases "last_match (long_rule ''positions'' k) cols")
  case None
  then show ?thesis by (simp add: pass1_long)
next
  case (Some c)
  then have "c \<noteq> []" using last_match_SomeD long_rule_nonempty by fastforce
  with Some show ?thesis by (simp add: pass1_long)
qed

lemma truthy_pass1_short:
  "truthy (short_of k (pass1 cols)) \<longleftrightarrow> last_match (short_only_rule ''positions'' k) cols \<noteq> None"
proof (cases "last_match (short_only_rule ''positions'' k) cols")
  case None
  then show ?thesis by (simp add: pass1_short)
next
  case (Some c)
  then have "short_rule ''positions'' k c"
    using last_match_SomeD[of "short_only_rule ''positions'' k" cols c]
    by (simp add: short_only_rule_def)
  then have "c \<noteq> []" using short_rule_nonempty by fastforce
  with Some show ?thesis by (simp add: pass1_short)
qed

lemma pass2_Cons: "pass2 r (c # cols) = pass2 (pass2_step r c) cols"
  by (simp add: pass2_def)

lemma pass2_long_kept:
  "truthy (long_of k r) \<Longrightarrow> long_of k (pass2 r cols) = long_of k r"
  by (induction cols arbitrary: r) (simp_all add: pass2_def pass2_step_long)

lemma pass2_short_kept:
  "truthy (short_of k r) \<Longrightarrow> short_of k (pass2 r cols) = short_of k r"
  by (induction cols arbitrary: r) (simp_all add: pass2_def pass2_step_short)

lemma pass2_long_first:
  "\<not> truthy (long_of k r) \<Longrightarrow>
   long_of k (pass2 r cols) =
     (case find (long_rule ''trader'' k) cols of None \<Rightarrow> long_of k r | Some c \<Rightarrow> Some c)"
proof (induction cols arbitrary: r)
  case Nil
  then show ?case by (simp add: pass2_def)
next
  case (Cons c cols)
  show ?case
  proof (cases "long_rule ''trader'' k c")
    case True
    then have ne: "c \<noteq> []" using long_rule_nonempty by fastforce
    have "long_of k (pass2_step r c) = Some c"
      using True Cons.prems by (simp add: pass2_step_long)
    then have "long_of k (pass2 (pass2_step r c) cols) = Some c"
      using pass2_long_kept[of k "pass2_step r c" cols] ne by simp
    then show ?thesis using True by (simp add: pass2_Cons)
  next
    case False
    then have eq: "long_of k (pass2_step r c) = long_of k r"
      by (simp add: pass2_step_long)
    then have "\<not> truthy (long_of k (pass2_step r c))" using Cons.prems by simp
    from Cons.IH[OF this] show ?thesis using False eq
      by (simp add: pass2_Cons split: option.splits)
  qed
qed

lemma pass2_short_first_after_long:
  "truthy (long_of k r) \<Longrightarrow> \<not> truthy (short_of k r) \<Longrightarrow>
   short_of k (pass2 r cols) =
     (case find (short_rule ''trader'' k) cols of None \<Rightarrow> short_of k r | Some c \<Rightarrow> Some c)"
proof (induction cols arbitrary: r)
  case Nil
  then show ?case by (simp add: pass2_def)
next
  case (Cons c cols)
  have lk: "long_of k (pass2_step r c) = long_of k r"
    using Cons.prems(1) by (simp add: pass2_step_long)
  show ?case
  proof (cases "short_rule ''trader'' k c")
    case True
    then have ne: "c \<noteq> []" using short_rule_nonempty by fastforce
    have "short_of k (pass2_step r c) = Some c"
      using True Cons.prems by (simp add: pass2_step_short)
    then have "short_of k (pass2 (pass2_step r c) cols) = Some c"
      using pass2_short_kept[of k "pass2_step r c" cols] ne by simp
    then show ?thesis using True by (simp add: pass2_Cons)
  next
    case False
    then have eq: "short_of k (pass2_step r c) = short_of k r"
      by (simp add: pass2_step_short)
    have "truthy (long_of k (pass2_step r c))" "\<not> truthy (short_of k (pass2_step r c))"
      using Cons.prems lk eq by simp_all
    from Cons.IH[OF this] show ?thesis using False eq
      by (simp add: pass2_Cons split: option.splits)
  qed
qed

lemma pass2_short_first:
  "\<not> truthy (long_of k r) \<Longrightarrow> \<not> truthy (short_of k r) \<Longrightarrow>
   short_of k (pass2 r cols) =
     (case find (short_rule ''trader'' k) (short_candidates k cols) of
        None \<Rightarrow> short_of k r | Some c \<Rightarrow> Some c)"
proof (induction cols arbitrary: r)
  case Nil
  then show ?case by (simp add: pass2_def short_candidates_def)
next
  case (Cons c cols)
  show ?case
  proof (cases "long_rule ''trader'' k c")
    case True
    then have ne: "c \<noteq> []" using long_rule_nonempty by fastforce
    have l: "long_of k (pass2_step r c) = Some c"
      using True Cons.prems by (simp add: pass2_step_long)
    have s: "short_of k (pass2_step r c) = short_of k r"
      using True Cons.prems by (simp add: pass2_step_short)
    have "short_of k (pass2 (pass2_step r c) cols) =
        (case find (short_rule ''trader'' k) cols of None \<Rightarrow> short_of k r | Some c \<Rightarrow> Some c)"
      using pass2_short_first_after_long[of k "pass2_step r c" cols] l s ne Cons.prems
      by (simp split: option.splits)
    then show ?thesis using True by (simp add: pass2_Cons short_candidates_def)
  next
    case notlong: False
    then have l: "long_of k (pass2_step r c) = long_of k r"
      by (simp add: pass2_step_long)
    have rm: "short_candidates k (c # cols) = c # short_candidates k cols"
    proof (cases "find (long_rule ''trader'' k) cols")
      case None
      then show ?thesis using notlong by (simp add: short_candidates_def)
    next
      case (Some d)
      then have "long_rule ''trader'' k d" using find_SomeD by fastforce
      then have "d \<noteq> c" using notlong by auto
      then show ?thesis using notlong Some by (simp add: short_candidates_def)
    qed
    show ?thesis
    proof (cases "short_rule ''trader'' k c")
      case True
      then have ne: "c \<noteq> []" using short_rule_nonempty by fastforce
      have "short_of k (pass2_step r c) = Some c"
        using True notlong Cons.prems by (simp add: pass2_step_short)
      then have "short_of k (pass2 (pass2_step r c) cols) = Some c"
        using pass2_short_kept[of k "pass2_step r c" cols] ne by simp
      then show ?thesis using True rm by (simp add: pass2_Cons)
    next
      case False
      then have s: "short_of k (pass2_step r c) = short_of k r"
        by (simp add: pass2_step_short)
      have "\<not> truthy (long_of k (pass2_step r c))" "\<not> truthy (short_of k (pass2_step r c))"
        using Cons.prems l s by simp_all
      from Cons.IH[OF this] show ?thesis using False s rm
        by (simp add: pass2_Cons split: option.splits)
    qed
  qed
qed

lemma pass2_runs_iff:
  "pass2_runs cols \<longleftrightarrow>
     \<not> truthy (noncomm_long (pass1 cols)) \<or> \<not> truthy (noncomm_short (pass1 cols))"
  using truthy_pass1_long[of NonCommercial cols] truthy_pass1_short[of NonCommercial cols]
  by (auto simp: pass2_runs_def)

lemma resolve_unfold:
  "resolve cols = (if pass2_runs cols then pass2 (pass1 cols) cols else pass1 cols)"
  by (simp add: resolve_def Let_def pass2_runs_iff)

lemma resolve_long:
  "long_of k (resolve cols) =
     (case last_match (long_rule ''positions'' k) cols of
        Some c \<Rightarrow> Some c
      | None \<Rightarrow> if pass2_runs cols then find (long_rule ''trader'' k) cols else None)"
proof (cases "last_match (long_rule ''positions'' k) cols")
  case None
  then have nt: "\<not> truthy (long_of k (pass1 cols))" using truthy_pass1_long by simp
  have "long_of k (pass1 cols) = None" using None by (simp add: pass1_long)
  then show ?thesis using None pass2_long_first[OF nt, of cols]
    by (simp add: resolve_unfold split: option.splits)
next
  case (Some c)
  then have t: "truthy (long_of k (pass1 cols))" using truthy_pass1_long by simp
  show ?thesis using Some pass2_long_kept[OF t, of cols]
    by (simp add: resolve_unfold pass1_long)
qed

lemma resolve_short:
  "short_of k (resolve cols) =
     (case last_match (short_only_rule ''positions'' k) cols of
        Some c \<Rightarrow> Some c
      | None \<Rightarrow>
          if pass2_runs cols then
            find (short_rule ''trader'' k)
              (if last_match (long_rule ''positions'' k) cols = None then short_candidates k cols
               else cols)
          else None)"
proof (cases "last_match (short_only_rule ''positions'' k) cols")
  case None
  then have nt: "\<not> truthy (short_of k (pass1 cols))" using truthy_pass1_short by simp
  have sn: "short_of k (pass1 cols) = None" using None by (simp add: pass1_short)
  show ?thesis
  proof (cases "last_match (long_rule ''positions'' k) cols = None")
    case True
    then have "\<not> truthy (long_of k (pass1 cols))" using truthy_pass1_long by simp
    from pass2_short_first[OF this nt, of cols] show ?thesis using None True sn
      by (simp add: resolve_unfold split: option.splits)
  next
    case False
    then have "truthy (long_of k (pass1 cols))" using truthy_pass1_long by simp
    from pass2_short_first_after_long[OF this nt, of cols] show ?thesis using None False sn
      by (simp add: resolve_unfold split: option.splits)
  qed
next
  case (Some c)
  then have t: "truthy (short_of k (pass1 cols))" using truthy_pass1_short by simp
  show ?thesis using Some pass2_short_kept[OF t, of cols]
    by (simp add: resolve_unfold pass1_short)
qed

lemma find_exists: "\<exists>x\<in>set xs. P x \<Longrightarrow> \<exists>y. find P xs = Some y"
  by (cases "find P xs") (auto simp: find_None_iff)

lemma short_candidates_subset: "set (short_candidates k cols) \<subseteq> set cols"
  using set_remove1_subset by (fastforce simp: short_candidates_def split: option.splits)


section \<open>Coercion and the net column\<close>

lemma coerce_cell_Num: "\<exists>n. coerce_cell e dt v = Num n"
  by (cases dt) (simp_all add: coerce_cell_def split: option.splits)

lemma coerce_cell_Int64_Num: "coerce_cell e Int64 (Num n) = Num n"
  by (simp add: coerce_cell_def to_numeric_def)

lemma col_dtype_all_Num: "\<forall>v\<in>set cs. is_Num v \<Longrightarrow> col_dtype e cs = Int64"
proof -
  assume a: "\<forall>v\<in>set cs. is_Num v"
  have "list_all (\<lambda>v. case to_numeric e v of None \<Rightarrow> False | Some p \<Rightarrow> fst p = Int64) cs"
    unfolding list_all_iff
  proof
    fix v assume "v \<in> set cs"
    then have "is_Num v" using a by simp
    then show "case to_numeric e v of None \<Rightarrow> False | Some p \<Rightarrow> fst p = Int64"
      by (cases v) (simp_all add: to_numeric_def)
  qed
  then show ?thesis by (simp add: col_dtype_def)
qed

lemma coerced_all_Num: "\<forall>v\<in>set (coerced e cs). is_Num v"
proof
  fix v assume "v \<in> set (coerced e cs)"
  then obtain u where "v = coerce_cell e (col_dtype e cs) u" by (auto simp: coerced_def)
  then show "is_Num v" using coerce_cell_Num[of e "col_dtype e cs" u] by auto
qed

lemma coerced_id: "\<forall>v\<in>set cs. is_Num v \<Longrightarrow> coerced e cs = cs"
proof -
  assume a: "\<forall>v\<in>set cs. is_Num v"
  have "map (coerce_cell e Int64) cs = cs"
  proof (rule map_idI)
    fix v assume "v \<in> set cs"
    then have "is_Num v" using a by simp
    then show "coerce_cell e Int64 v = v" by (cases v) (simp_all add: coerce_cell_Int64_Num)
  qed
  then show ?thesis using col_dtype_all_Num[OF a] by (simp add: coerced_def)
qed

lemma coerced_idem: "coerced e (coerced e cs) = coerced e cs"
  using coerced_all_Num by (rule coerced_id)

lemma length_coerced: "length (coerced e cs) = length cs"
  by (simp add: coerced_def)

lemma numeric_Num: "numeric e (Num n) = n"
  by (simp add: numeric_def to_numeric_def)

lemma to_float64_small: "\<bar>n\<bar> \<le> 2 ^ 53 \<Longrightarrow> to_float64 e n = n"
  by (simp add: to_float64_def)

lemma coerce_cell_small: "\<bar>numeric e v\<bar> \<le> 2 ^ 53 \<Longrightarrow> coerce_cell e dt v = Num (numeric e v)"
  by (cases dt) (auto simp: coerce_cell_def numeric_def to_float64_small split: option.splits)

lemma wrap64_small: "\<bar>x\<bar> \<le> 2 ^ 53 \<Longrightarrow> wrap64 x = x"
proof -
  assume a: "\<bar>x\<bar> \<le> 2 ^ 53"
  have "(0::int) \<le> x + 2 ^ 63" and "x + 2 ^ 63 < (2::int) ^ 64" using a by simp_all
  then have "(x + 2 ^ 63) mod 2 ^ 64 = x + 2 ^ 63" by (rule mod_pos_pos_trivial)
  then show ?thesis by (simp add: wrap64_def)
qed

lemma sub_cell_exact:
  assumes "exact_pair a b"
  shows "sub_cell e dl ds (Num a) (Num b) = Num (a - b)"
proof -
  have s: "\<bar>a\<bar> \<le> 2 ^ 53" "\<bar>b\<bar> \<le> 2 ^ 53" "\<bar>a - b\<bar> \<le> 2 ^ 53"
    using assms by (simp_all add: exact_pair_def)
  have "as_float e dl a = a" "as_float e ds b = b"
    using s by (cases dl; cases ds; simp add: as_float_def to_float64_small)+
  then show ?thesis using s by (simp add: wrap64_small to_float64_small)
qed

lemma net_of_exact:
  assumes "list_all2 exact_pair (map (numeric e) cl) (map (numeric e) cs)"
  shows "net_of e cl cs =
    map (\<lambda>(x, y). Num (x - y)) (zip (map (numeric e) cl) (map (numeric e) cs))"
proof -
  have len: "length cl = length cs" using assms by (auto dest: list_all2_lengthD)
  have cl: "coerced e cl = map (\<lambda>v. Num (numeric e v)) cl"
    unfolding coerced_def
  proof (rule map_cong[OF refl])
    fix v assume "v \<in> set cl"
    then obtain i where i: "i < length cl" "v = cl ! i" by (auto simp: in_set_conv_nth)
    then have "exact_pair (numeric e (cl ! i)) (numeric e (cs ! i))"
      using assms len by (simp add: list_all2_conv_all_nth)
    then show "coerce_cell e (col_dtype e cl) v = Num (numeric e v)"
      using i by (simp add: exact_pair_def coerce_cell_small)
  qed
  have cs: "coerced e cs = map (\<lambda>v. Num (numeric e v)) cs"
    unfolding coerced_def
  proof (rule map_cong[OF refl])
    fix v assume "v \<in> set cs"
    then obtain i where i: "i < length cs" "v = cs ! i" by (auto simp: in_set_conv_nth)
    then have "exact_pair (numeric e (cl ! i)) (numeric e (cs ! i))"
      using assms len by (simp add: list_all2_conv_all_nth)
    then show "coerce_cell e (col_dtype e cs) v = Num (numeric e v)"
      using i by (simp add: exact_pair_def coerce_cell_small)
  qed
  show ?thesis
  proof (rule nth_equalityI)
    show "length (net_of e cl cs) =
        length (map (\<lambda>(x, y). Num (x - y)) (zip (map (numeric e) cl) (map (numeric e) cs)))"
      by (simp add: net_of_def length_coerced)
  next
    fix i assume "i < length (net_of e cl cs)"
    then have i: "i < length cl" "i < length cs" using len by (simp_all add: net_of_def length_coerced)
    have ex: "exact_pair (numeric e (cl ! i)) (numeric e (cs ! i))"
      using assms len i by (simp add: list_all2_conv_all_nth)
    have "net_of e cl cs ! i =
        sub_cell e (col_dtype e cl) (col_dtype e cs) (Num (numeric e (cl ! i)))
          (Num (numeric e (cs ! i)))"
      using i by (simp add: net_of_def cl cs)
    also have "\<dots> = Num (numeric e (cl ! i) - numeric e (cs ! i))" using ex by (rule sub_cell_exact)
    finally show "net_of e cl cs ! i =
        map (\<lambda>(x, y). Num (x - y)) (zip (map (numeric e) cl) (map (numeric e) cs)) ! i"
      using i by simp
  qed
qed

lemma column_set_column:
  "column (set_column t c f) c' = (if c' = c then map f (rows t) else column t c')"
  by (simp add: column_def set_column_def o_def)

lemma columns_set_column_old:
  "name \<in> set (columns t) \<Longrightarrow> columns (set_column t name f) = columns t"
  by (simp add: set_column_def)

lemma columns_set_column:
  "columns (set_column t name f) =
     (if name \<in> set (columns t) then columns t else columns t @ [name])"
  by (simp add: set_column_def)

lemma length_rows_set_column: "length (rows (set_column t name f)) = length (rows t)"
  by (simp add: set_column_def)

lemma not_duplicated: "distinct cols \<Longrightarrow> \<not> duplicated c cols"
proof -
  assume "distinct cols"
  then have "length (filter (\<lambda>x. x = c) cols) \<le> 1"
    by (induction cols) (auto simp: filter_empty_conv)
  then show ?thesis by (simp add: duplicated_def)
qed

lemma to_numeric_fillna_ok:
  assumes "c \<in> set (columns t)" "\<not> duplicated c (columns t)"
  shows "\<exists>t'. to_numeric_fillna e t c = Inr (col_dtype e (column t c), t') \<and>
    columns t' = columns t \<and> length (rows t') = length (rows t) \<and>
    (\<forall>c'. column t' c' = (if c' = c then coerced e (column t c) else column t c'))"
proof -
  let ?dt = "col_dtype e (column t c)"
  let ?t' = "set_column t c (\<lambda>r. coerce_cell e ?dt (r c))"
  have "to_numeric_fillna e t c = Inr (?dt, ?t')"
    using assms by (simp add: to_numeric_fillna_def Let_def)
  moreover have "columns ?t' = columns t" using assms(1) by (rule columns_set_column_old)
  moreover have "length (rows ?t') = length (rows t)" by (rule length_rows_set_column)
  moreover have "\<forall>c'. column ?t' c' = (if c' = c then coerced e (column t c) else column t c')"
  proof
    fix c'
    have "map (\<lambda>r. coerce_cell e ?dt (r c)) (rows t) = coerced e (column t c)"
      by (simp add: coerced_def column_def o_def)
    then show "column ?t' c' = (if c' = c then coerced e (column t c) else column t c')"
      by (simp add: column_set_column)
  qed
  ultimately show ?thesis by blast
qed

lemma pair_columns_cases:
  "pair_columns long short = [] \<or> (\<exists>l s. pair_columns long short = [l, s])"
  by (cases long; cases short) (auto simp: pair_columns_def)

lemma add_net_id: "pair_columns long short = [] \<Longrightarrow> add_net e long short net entry st = Inr st"
  by (cases long; cases short) (auto simp: add_net_def pair_columns_def split: if_splits)

lemma add_net_unfold:
  "pair_columns long short = [l, s] \<Longrightarrow>
   add_net e long short net entry st =
     bind_result (to_numeric_fillna e (fst st) l) (\<lambda>c1.
     bind_result (to_numeric_fillna e (snd c1) s) (\<lambda>c2.
       Inr (set_column (snd c2) net
              (\<lambda>r. sub_cell e (fst c1) (if s = l then fst c1 else fst c2) (r l) (r s)),
            snd st @ [entry])))"
  by (cases long; cases short) (auto simp: add_net_def pair_columns_def Let_def split: if_splits)

lemma column_zip:
  "map (\<lambda>r. f (r l) (r s)) (rows t) = map (\<lambda>(a, b). f a b) (zip (column t l) (column t s))"
  by (simp add: column_def zip_map_map o_def zip_same_conv_map)

lemma add_net_pair:
  assumes p: "pair_columns long short = [l, s]"
    and l: "l \<in> set (columns t)" and s: "s \<in> set (columns t)"
    and dl: "\<not> duplicated l (columns t)" and ds: "\<not> duplicated s (columns t)"
  shows "\<exists>t'. add_net e long short net entry (t, td) = Inr (t', td @ [entry]) \<and>
    columns t' = (if net \<in> set (columns t) then columns t else columns t @ [net]) \<and>
    length (rows t') = length (rows t) \<and>
    (\<forall>c. c \<noteq> net \<longrightarrow>
       column t' c = (if c = l \<or> c = s then coerced e (column t c) else column t c)) \<and>
    column t' net = net_of e (column t l) (column t s)"
proof -
  let ?dl = "col_dtype e (column t l)"
  obtain t1 where t1: "to_numeric_fillna e t l = Inr (?dl, t1)" "columns t1 = columns t"
    "length (rows t1) = length (rows t)"
    "\<forall>c'. column t1 c' = (if c' = l then coerced e (column t l) else column t c')"
    using to_numeric_fillna_ok[OF l dl, of e] by blast
  have s1: "s \<in> set (columns t1)" and d1: "\<not> duplicated s (columns t1)"
    using s ds t1(2) by simp_all
  let ?d2 = "col_dtype e (column t1 s)"
  obtain t2 where t2: "to_numeric_fillna e t1 s = Inr (?d2, t2)" "columns t2 = columns t1"
    "length (rows t2) = length (rows t1)"
    "\<forall>c'. column t2 c' = (if c' = s then coerced e (column t1 s) else column t1 c')"
    using to_numeric_fillna_ok[OF s1 d1, of e] by blast
  let ?ds = "if s = l then ?dl else ?d2"
  let ?t3 = "set_column t2 net (\<lambda>r. sub_cell e ?dl ?ds (r l) (r s))"
  have res: "add_net e long short net entry (t, td) = Inr (?t3, td @ [entry])"
    using t1(1) t2(1) by (simp add: add_net_unfold[OF p])
  have cl: "column t2 l = coerced e (column t l)"
    using t1(4) t2(4) by (simp add: coerced_idem)
  have cs: "column t2 s = coerced e (column t s)"
    using t1(4) t2(4) by (simp add: coerced_idem)
  have dts: "?ds = col_dtype e (column t s)" using t1(4) by simp
  have other: "\<forall>c. c \<noteq> net \<longrightarrow>
       column ?t3 c = (if c = l \<or> c = s then coerced e (column t c) else column t c)"
    using t1(4) t2(4) cl cs by (simp add: column_set_column)
  have "column ?t3 net = map (\<lambda>r. sub_cell e ?dl ?ds (r l) (r s)) (rows t2)"
    by (simp add: column_set_column)
  also have "\<dots> = map (\<lambda>(a, b). sub_cell e ?dl ?ds a b) (zip (column t2 l) (column t2 s))"
    by (rule column_zip)
  also have "\<dots> = net_of e (column t l) (column t s)"
    unfolding cl cs dts by (simp add: net_of_def)
  finally have net: "column ?t3 net = net_of e (column t l) (column t s)" .
  have cols: "columns ?t3 = (if net \<in> set (columns t) then columns t else columns t @ [net])"
    using t1(2) t2(2) by (simp add: columns_set_column)
  have len: "length (rows ?t3) = length (rows t)"
    using t1(3) t2(3) by (simp add: length_rows_set_column)
  from res cols len other net show ?thesis by blast
qed

lemma add_net_block:
  assumes sub: "set (pair_columns long short) \<subseteq> set (columns t)"
    and d: "\<forall>c\<in>set (pair_columns long short). \<not> duplicated c (columns t)"
  shows "\<exists>t'. add_net e long short net entry (t, td) =
      Inr (t', td @ (if pair_columns long short = [] then [] else [entry])) \<and>
    columns t' = (if pair_columns long short = [] \<or> net \<in> set (columns t) then columns t
                  else columns t @ [net]) \<and>
    (\<forall>c. c \<noteq> net \<longrightarrow>
       column t' c = (if c \<in> set (pair_columns long short) then coerced e (column t c)
                      else column t c)) \<and>
    (\<forall>l s. pair_columns long short = [l, s] \<longrightarrow>
       column t' net = net_of e (column t l) (column t s)) \<and>
    (pair_columns long short = [] \<longrightarrow> t' = t)"
proof -
  consider "pair_columns long short = []" | l s where "pair_columns long short = [l, s]"
    using pair_columns_cases by blast
  then show ?thesis
  proof cases
    case 1
    then show ?thesis by (simp add: add_net_id)
  next
    case 2
    then have l: "l \<in> set (columns t)" and s: "s \<in> set (columns t)" using sub by simp_all
    have dl: "\<not> duplicated l (columns t)" and ds: "\<not> duplicated s (columns t)"
      using d 2 by simp_all
    obtain t' where t': "add_net e long short net entry (t, td) = Inr (t', td @ [entry])"
      "columns t' = (if net \<in> set (columns t) then columns t else columns t @ [net])"
      "\<forall>c. c \<noteq> net \<longrightarrow>
         column t' c = (if c = l \<or> c = s then coerced e (column t c) else column t c)"
      "column t' net = net_of e (column t l) (column t s)"
      using add_net_pair[OF 2 l s dl ds, of e net entry td] by blast
    show ?thesis using t' 2 by auto
  qed
qed

lemma resolved_long:
  assumes "long_of k (resolve cols) = Some l"
  shows "cat_of (lower l) = Some k \<and> contains ''(all)'' (lower l) \<and> l \<in> set cols \<and> l \<noteq> []"
proof -
  have "(long_rule ''positions'' k l \<or> long_rule ''trader'' k l) \<and> l \<in> set cols"
    using assms last_match_SomeD[of "long_rule ''positions'' k" cols]
      find_SomeD[of "long_rule ''trader'' k" cols]
    by (auto simp: resolve_long split: option.splits if_splits)
  then show ?thesis using long_rule_nonempty[of _ k l]
    by (auto simp: long_rule_def is_long_def)
qed

lemma resolved_short:
  assumes "short_of k (resolve cols) = Some s"
  shows "cat_of (lower s) = Some k \<and> contains ''(all)'' (lower s) \<and> s \<in> set cols \<and> s \<noteq> []"
proof -
  have "(short_rule ''positions'' k s \<or> short_rule ''trader'' k s) \<and> s \<in> set cols"
    using assms last_match_SomeD[of "short_only_rule ''positions'' k" cols]
      find_SomeD[of "short_rule ''trader'' k" cols]
      find_SomeD[of "short_rule ''trader'' k" "short_candidates k cols"]
      short_candidates_subset[of k cols]
    by (auto simp: resolve_short short_only_rule_def split: option.splits if_splits)
  then show ?thesis using short_rule_nonempty[of _ k s]
    by (auto simp: short_rule_def is_short_def)
qed

lemma net_names_no_all: "c \<in> set net_names \<Longrightarrow> \<not> contains ''(all)'' (lower c)"
proof -
  have "\<not> contains ''(all)'' (lower ''Commercial_Net'')" by code_simp
  moreover have "\<not> contains ''(all)'' (lower ''NonCommercial_Net'')" by code_simp
  moreover have "\<not> contains ''(all)'' (lower ''NonReportable_Net'')" by code_simp
  ultimately show "c \<in> set net_names \<Longrightarrow> \<not> contains ''(all)'' (lower c)"
    by (auto simp: net_names_def)
qed

lemma pair_resolved:
  assumes "c \<in> set (pair_columns (long_of k (resolve cols)) (short_of k (resolve cols)))"
  shows "cat_of (lower c) = Some k \<and> c \<in> set cols \<and> c \<notin> set net_names"
proof -
  consider "pair_columns (long_of k (resolve cols)) (short_of k (resolve cols)) = []"
    | l s where "pair_columns (long_of k (resolve cols)) (short_of k (resolve cols)) = [l, s]"
    using pair_columns_cases by blast
  then obtain l s where p: "pair_columns (long_of k (resolve cols)) (short_of k (resolve cols)) = [l, s]"
    using assms by cases auto
  then have "long_of k (resolve cols) = Some l \<and> short_of k (resolve cols) = Some s"
    by (cases "long_of k (resolve cols)"; cases "short_of k (resolve cols)")
      (auto simp: pair_columns_def split: if_splits)
  then have ls: "long_of k (resolve cols) = Some l" "short_of k (resolve cols) = Some s"
    "c = l \<or> c = s"
    using assms p by auto
  show ?thesis
    using ls(3) resolved_long[OF ls(1)] resolved_short[OF ls(2)] net_names_no_all[of c] by auto
qed

lemma pair_columns_resolved:
  assumes "long_of k (resolve cols) = Some l" "short_of k (resolve cols) = Some s"
  shows "pair_columns (long_of k (resolve cols)) (short_of k (resolve cols)) = [l, s]"
  using assms resolved_long[OF assms(1)] resolved_short[OF assms(2)]
  by (simp add: pair_columns_def)

lemma duplicated_snoc: "c \<noteq> n \<Longrightarrow> duplicated c (cols @ [n]) = duplicated c cols"
  by (simp add: duplicated_def)



lemma derive_ok:
  assumes d: "\<forall>c\<in>set (source_columns (resolve (columns t))). \<not> duplicated c (columns t)"
  shows "\<exists>t' td. derive e (resolve (columns t)) t = Inr (t', td) \<and>
    td = (if pair_columns (comm_long (resolve (columns t))) (comm_short (resolve (columns t))) = []
            then [] else [(''Large Commercials'', ''Commercial_Net'', ''red'')]) @
         (if pair_columns (noncomm_long (resolve (columns t)))
               (noncomm_short (resolve (columns t))) = []
            then [] else [(''Large Speculators'', ''NonCommercial_Net'', ''blue'')]) @
         (if pair_columns (small_long (resolve (columns t))) (small_short (resolve (columns t))) = []
            then [] else [(''Small Speculators'', ''NonReportable_Net'', ''yellow'')]) \<and>
    (set net_names \<inter> set (columns t) = {} \<longrightarrow>
       columns t' = columns t @ map (\<lambda>(label, col, color). col) td) \<and>
    (source_columns (resolve (columns t)) = [] \<longrightarrow> t' = t) \<and>
    (\<forall>c. c \<notin> set net_names \<longrightarrow>
       column t' c = (if c \<in> set (source_columns (resolve (columns t)))
                      then coerced e (column t c) else column t c)) \<and>
    (\<forall>k l s. long_of k (resolve (columns t)) = Some l \<and>
             short_of k (resolve (columns t)) = Some s \<longrightarrow>
       column t' (net_column k) = net_of e (column t l) (column t s))"
proof -
  let ?r = "resolve (columns t)"
  let ?P1 = "pair_columns (comm_long ?r) (comm_short ?r)"
  let ?P2 = "pair_columns (noncomm_long ?r) (noncomm_short ?r)"
  let ?P3 = "pair_columns (small_long ?r) (small_short ?r)"
  let ?n1 = "''Commercial_Net''" and ?n2 = "''NonCommercial_Net''"
    and ?n3 = "''NonReportable_Net''"
  let ?e1 = "(''Large Commercials'', ''Commercial_Net'', ''red'')"
  let ?e2 = "(''Large Speculators'', ''NonCommercial_Net'', ''blue'')"
  let ?e3 = "(''Small Speculators'', ''NonReportable_Net'', ''yellow'')"
  have r1: "\<And>c. c \<in> set ?P1 \<Longrightarrow>
      cat_of (lower c) = Some Commercial \<and> c \<in> set (columns t) \<and> c \<notin> set net_names"
    using pair_resolved[of _ Commercial "columns t"] by simp
  have r2: "\<And>c. c \<in> set ?P2 \<Longrightarrow>
      cat_of (lower c) = Some NonCommercial \<and> c \<in> set (columns t) \<and> c \<notin> set net_names"
    using pair_resolved[of _ NonCommercial "columns t"] by simp
  have r3: "\<And>c. c \<in> set ?P3 \<Longrightarrow>
      cat_of (lower c) = Some NonReportable \<and> c \<in> set (columns t) \<and> c \<notin> set net_names"
    using pair_resolved[of _ NonReportable "columns t"] by simp
  have nn: "?n1 \<in> set net_names" "?n2 \<in> set net_names" "?n3 \<in> set net_names"
    by (simp_all add: net_names_def)
  have s1: "set ?P1 \<subseteq> set (columns t)" using r1 by blast
  have dd: "\<forall>c\<in>set ?P1. \<not> duplicated c (columns t)"
    "\<forall>c\<in>set ?P2. \<not> duplicated c (columns t)" "\<forall>c\<in>set ?P3. \<not> duplicated c (columns t)"
    using d by (simp_all add: source_columns_def)
  obtain t1 where t1: "add_net e (comm_long ?r) (comm_short ?r) ?n1 ?e1 (t, []) =
      Inr (t1, [] @ (if ?P1 = [] then [] else [?e1]))"
    "columns t1 = (if ?P1 = [] \<or> ?n1 \<in> set (columns t) then columns t else columns t @ [?n1])"
    "\<forall>c. c \<noteq> ?n1 \<longrightarrow>
       column t1 c = (if c \<in> set ?P1 then coerced e (column t c) else column t c)"
    "\<forall>l s. ?P1 = [l, s] \<longrightarrow> column t1 ?n1 = net_of e (column t l) (column t s)"
    "?P1 = [] \<longrightarrow> t1 = t"
    using add_net_block[OF s1 dd(1), of e ?n1 ?e1 "[]"] by blast
  have dup1: "duplicated c (columns t1) = duplicated c (columns t)"
    if "c \<notin> set net_names" for c
  proof -
    have "c \<noteq> ?n1" using that nn by auto
    then show ?thesis using t1(2) by (simp add: duplicated_snoc)
  qed
  have d1: "\<forall>c\<in>set ?P2. \<not> duplicated c (columns t1)" using dd(2) dup1 r2 by blast
  have sub1: "set (columns t) \<subseteq> set (columns t1)" using t1(2) by auto
  have s2: "set ?P2 \<subseteq> set (columns t1)" using r2 sub1 by blast
  let ?td1 = "if ?P1 = [] then [] else [?e1]"
  obtain t2 where t2: "add_net e (noncomm_long ?r) (noncomm_short ?r) ?n2 ?e2 (t1, ?td1) =
      Inr (t2, ?td1 @ (if ?P2 = [] then [] else [?e2]))"
    "columns t2 = (if ?P2 = [] \<or> ?n2 \<in> set (columns t1) then columns t1 else columns t1 @ [?n2])"
    "\<forall>c. c \<noteq> ?n2 \<longrightarrow>
       column t2 c = (if c \<in> set ?P2 then coerced e (column t1 c) else column t1 c)"
    "\<forall>l s. ?P2 = [l, s] \<longrightarrow> column t2 ?n2 = net_of e (column t1 l) (column t1 s)"
    "?P2 = [] \<longrightarrow> t2 = t1"
    using add_net_block[OF s2 d1, of e ?n2 ?e2 ?td1] by blast
  have dup2: "duplicated c (columns t2) = duplicated c (columns t)"
    if "c \<notin> set net_names" for c
  proof -
    have "c \<noteq> ?n2" using that nn by auto
    then have "duplicated c (columns t2) = duplicated c (columns t1)"
      using t2(2) by (simp add: duplicated_snoc)
    then show ?thesis using dup1[OF that] by simp
  qed
  have d2: "\<forall>c\<in>set ?P3. \<not> duplicated c (columns t2)" using dd(3) dup2 r3 by blast
  have sub2: "set (columns t) \<subseteq> set (columns t2)" using t2(2) sub1 by auto
  have s3: "set ?P3 \<subseteq> set (columns t2)" using r3 sub2 by blast
  let ?td2 = "?td1 @ (if ?P2 = [] then [] else [?e2])"
  obtain t3 where t3: "add_net e (small_long ?r) (small_short ?r) ?n3 ?e3 (t2, ?td2) =
      Inr (t3, ?td2 @ (if ?P3 = [] then [] else [?e3]))"
    "columns t3 = (if ?P3 = [] \<or> ?n3 \<in> set (columns t2) then columns t2 else columns t2 @ [?n3])"
    "\<forall>c. c \<noteq> ?n3 \<longrightarrow>
       column t3 c = (if c \<in> set ?P3 then coerced e (column t2 c) else column t2 c)"
    "\<forall>l s. ?P3 = [l, s] \<longrightarrow> column t3 ?n3 = net_of e (column t2 l) (column t2 s)"
    "?P3 = [] \<longrightarrow> t3 = t2"
    using add_net_block[OF s3 d2, of e ?n3 ?e3 ?td2] by blast
  let ?td = "?td2 @ (if ?P3 = [] then [] else [?e3])"
  have res: "derive e ?r t = Inr (t3, ?td)"
    using t1(1) t2(1) t3(1) by (simp add: derive_def)
  have cols: "set net_names \<inter> set (columns t) = {} \<longrightarrow>
      columns t3 = columns t @ map (\<lambda>(label, col, color). col) ?td"
  proof
    assume "set net_names \<inter> set (columns t) = {}"
    then have n: "?n1 \<notin> set (columns t)" "?n2 \<notin> set (columns t)" "?n3 \<notin> set (columns t)"
      using nn by auto
    have c1: "columns t1 = columns t @ (if ?P1 = [] then [] else [?n1])" using t1(2) n by simp
    have "?n2 \<notin> set (columns t1)" using c1 n by simp
    then have c2: "columns t2 = columns t1 @ (if ?P2 = [] then [] else [?n2])" using t2(2) by simp
    have "?n3 \<notin> set (columns t2)" using c1 c2 n by simp
    then have c3: "columns t3 = columns t2 @ (if ?P3 = [] then [] else [?n3])" using t3(2) by simp
    show "columns t3 = columns t @ map (\<lambda>(label, col, color). col) ?td"
      using c1 c2 c3 by simp
  qed
  have none: "source_columns ?r = [] \<longrightarrow> t3 = t"
    using t1(5) t2(5) t3(5) by (simp add: source_columns_def)
  have frame: "\<forall>c. c \<notin> set net_names \<longrightarrow>
       column t3 c = (if c \<in> set (source_columns ?r) then coerced e (column t c) else column t c)"
  proof (intro allI impI)
    fix c assume "c \<notin> set net_names"
    then have c: "c \<noteq> ?n1" "c \<noteq> ?n2" "c \<noteq> ?n3" using nn by auto
    have a1: "column t1 c = (if c \<in> set ?P1 then coerced e (column t c) else column t c)"
      using t1(3) c(1) by blast
    have a2: "column t2 c = (if c \<in> set ?P2 then coerced e (column t1 c) else column t1 c)"
      using t2(3) c(2) by blast
    have a3: "column t3 c = (if c \<in> set ?P3 then coerced e (column t2 c) else column t2 c)"
      using t3(3) c(3) by blast
    show "column t3 c =
        (if c \<in> set (source_columns ?r) then coerced e (column t c) else column t c)"
      unfolding a3 a2 a1 by (simp add: source_columns_def coerced_idem)
  qed
  have keep1: "\<And>c. cat_of (lower c) \<noteq> Some Commercial \<Longrightarrow> c \<noteq> ?n1 \<Longrightarrow>
      column t1 c = column t c"
    using t1(3) r1 by auto
  have keep2: "\<And>c. cat_of (lower c) \<noteq> Some NonCommercial \<Longrightarrow> c \<noteq> ?n2 \<Longrightarrow>
      column t2 c = column t1 c"
    using t2(3) r2 by auto
  have net2: "\<And>c. c \<in> set net_names \<Longrightarrow> c \<noteq> ?n2 \<Longrightarrow> column t2 c = column t1 c"
    using t2(3) r2 by auto
  have net3: "\<And>c. c \<in> set net_names \<Longrightarrow> c \<noteq> ?n3 \<Longrightarrow> column t3 c = column t2 c"
    using t3(3) r3 by auto
  have nets: "\<forall>k l s. long_of k ?r = Some l \<and> short_of k ?r = Some s \<longrightarrow>
       column t3 (net_column k) = net_of e (column t l) (column t s)"
  proof (intro allI impI)
    fix k l s assume a: "long_of k ?r = Some l \<and> short_of k ?r = Some s"
    then have p: "pair_columns (long_of k ?r) (short_of k ?r) = [l, s]"
      using pair_columns_resolved by blast
    have f: "cat_of (lower l) = Some k" "cat_of (lower s) = Some k"
      "l \<notin> set net_names" "s \<notin> set net_names"
      using pair_resolved[of l k "columns t"] pair_resolved[of s k "columns t"] p by simp_all
    have ln: "l \<noteq> ?n1" "l \<noteq> ?n2" "l \<noteq> ?n3" "s \<noteq> ?n1" "s \<noteq> ?n2" "s \<noteq> ?n3"
      using f nn by auto
    show "column t3 (net_column k) = net_of e (column t l) (column t s)"
    proof (cases k)
      case Commercial
      then have "column t1 ?n1 = net_of e (column t l) (column t s)" using t1(4) p by simp
      then show ?thesis using Commercial net2[of ?n1] net3[of ?n1] nn by simp
    next
      case NonCommercial
      then have "column t2 ?n2 = net_of e (column t1 l) (column t1 s)" using t2(4) p by simp
      moreover have "column t1 l = column t l" "column t1 s = column t s"
        using keep1 f ln NonCommercial by simp_all
      ultimately show ?thesis using NonCommercial net3[of ?n2] nn by simp
    next
      case NonReportable
      then have "column t3 ?n3 = net_of e (column t2 l) (column t2 s)" using t3(4) p by simp
      moreover have "column t2 l = column t l" "column t2 s = column t s"
        using keep1 keep2 f ln NonReportable by simp_all
      ultimately show ?thesis using NonReportable by simp
    qed
  qed
  from res cols none frame nets show ?thesis by (intro exI[of _ t3] exI[of _ ?td]) simp
qed



section \<open>The stages of plot_trader_positions\<close>

lemma derive_none:
  assumes "\<forall>k. long_of k r = None \<or> short_of k r = None"
  shows "derive e r t = Inr (t, [])"
proof -
  have "pair_columns (comm_long r) (comm_short r) = []"
    using assms[rule_format, of Commercial] by (auto simp: pair_columns_def split: option.splits)
  moreover have "pair_columns (noncomm_long r) (noncomm_short r) = []"
    using assms[rule_format, of NonCommercial]
    by (auto simp: pair_columns_def split: option.splits)
  moreover have "pair_columns (small_long r) (small_short r) = []"
    using assms[rule_format, of NonReportable]
    by (auto simp: pair_columns_def split: option.splits)
  ultimately show ?thesis by (simp add: derive_def add_net_id)
qed

lemma plot_legacy_none:
  assumes "\<forall>k. long_of k (resolve (columns t)) = None \<or> short_of k (resolve (columns t)) = None"
  shows "plot_legacy e rt t =
    Inr \<lparr>printed = [NoPositionColumns rt, AvailableColumns (columns t)], trader_data = [],
         plot_df = t, drawn = False\<rparr>"
  using derive_none[OF assms] by (simp add: plot_legacy_def)

lemma bind_result_Inr:
  "bind_result m f = Inr y \<longleftrightarrow> (\<exists>x. m = Inr x \<and> f x = Inr y)"
  by (cases m) simp_all

lemma bind_result_Inl:
  "bind_result m f = Inl err \<longleftrightarrow> m = Inl err \<or> (\<exists>x. m = Inr x \<and> f x = Inl err)"
  by (cases m) simp_all

lemma to_datetime_Inl: "to_datetime e v = Inl err \<Longrightarrow> err = ParserError"
  by (cases v) (auto split: option.splits)

lemma to_datetime_Inr: "to_datetime e v = Inr w \<Longrightarrow> w = Null \<or> is_Num w"
  by (cases v) (auto split: option.splits)

lemma map_result_Inl:
  "map_result f xs = Inl err \<Longrightarrow> \<exists>x\<in>set xs. f x = Inl err"
  by (induction xs) (auto simp: bind_result_Inl)

lemma map_result_Inr:
  "map_result f xs = Inr ys \<Longrightarrow> list_all2 (\<lambda>x y. f x = Inr y) xs ys"
  by (induction xs arbitrary: ys) (auto simp: bind_result_Inr)

lemma to_datetime_column_Inl: "to_datetime_column e col t = Inl err \<Longrightarrow> err = ParserError"
  by (auto simp: to_datetime_column_def bind_result_Inl dest!: map_result_Inl to_datetime_Inl)

lemma to_datetime_column_Inr:
  assumes "to_datetime_column e col t = Inr t1"
  shows "columns t1 = columns t \<and>
    list_all2 (\<lambda>r r1. (r1 col = Null \<or> is_Num (r1 col)) \<and> (\<forall>c. c \<noteq> col \<longrightarrow> r1 c = r c))
      (rows t) (rows t1)"
proof -
  let ?f = "\<lambda>r. bind_result (to_datetime e (r col)) (\<lambda>v. Inr (r(col := v)))"
  obtain rs where rs: "map_result ?f (rows t) = Inr rs" and t1: "t1 = t\<lparr>rows := rs\<rparr>"
    using assms by (auto simp: to_datetime_column_def bind_result_Inr)
  have "list_all2 (\<lambda>x y. ?f x = Inr y) (rows t) rs" using rs by (rule map_result_Inr)
  then have "list_all2 (\<lambda>r r1. (r1 col = Null \<or> is_Num (r1 col)) \<and>
      (\<forall>c. c \<noteq> col \<longrightarrow> r1 c = r c)) (rows t) rs"
  proof (rule list_all2_mono)
    fix r r1 assume "?f r = Inr r1"
    then obtain v where "to_datetime e (r col) = Inr v" "r1 = r(col := v)"
      by (auto simp: bind_result_Inr)
    then show "(r1 col = Null \<or> is_Num (r1 col)) \<and> (\<forall>c. c \<noteq> col \<longrightarrow> r1 c = r c)"
      using to_datetime_Inr by auto
  qed
  then show ?thesis using t1 by simp
qed

lemma filter_from_Inl: "filter_from e col d t = Inl err \<Longrightarrow> err = ParserError"
  by (auto simp: filter_from_def bind_result_Inl split: option.splits if_splits)

lemma filter_to_Inl: "filter_to e col d t = Inl err \<Longrightarrow> err = ParserError"
  by (auto simp: filter_to_def bind_result_Inl split: option.splits if_splits)

lemma filter_from_Inr:
  "filter_from e col d t = Inr t' \<Longrightarrow> columns t' = columns t \<and> set (rows t') \<subseteq> set (rows t)"
  by (auto simp: filter_from_def bind_result_Inr split: option.splits if_splits)

lemma filter_to_Inr:
  "filter_to e col d t = Inr t' \<Longrightarrow> columns t' = columns t \<and> set (rows t') \<subseteq> set (rows t)"
  by (auto simp: filter_to_def bind_result_Inr split: option.splits if_splits)

lemma sort_values_Inr:
  "sort_values col t = Inr t' \<Longrightarrow> columns t' = columns t \<and> set (rows t') = set (rows t)"
  by (auto simp: sort_values_def Let_def split: if_splits)

lemma sort_values_dates:
  assumes "\<forall>r\<in>set (rows t). r col = Null \<or> is_Num (r col)"
  shows "\<exists>t'. sort_values col t = Inr t'"
proof -
  have "list_all is_Num (filter (\<lambda>v. v \<noteq> Null) (map (\<lambda>r. r col) (rows t)))"
    using assms by (auto simp: list_all_iff)
  then show ?thesis by (simp add: sort_values_def Let_def)
qed

lemma prepare_Inl: "prepare e col sd ed t = Inl err \<Longrightarrow> err = ParserError"
proof -
  assume a: "prepare e col sd ed t = Inl err"
  show ?thesis
  proof (cases "to_datetime_column e col t")
    case (Inl x)
    then show ?thesis using a to_datetime_column_Inl by (simp add: prepare_def)
  next
    case (Inr t1)
    let ?sd = "if \<not> truthy sd \<and> \<not> truthy ed then Some (five_years_ago e) else sd"
    let ?ed = "if \<not> truthy sd \<and> \<not> truthy ed then Some (today e) else ed"
    have dates: "\<forall>r\<in>set (rows t1). r col = Null \<or> is_Num (r col)"
      using to_datetime_column_Inr[OF Inr] by (auto simp: list_all2_conv_all_nth in_set_conv_nth)
    show ?thesis
    proof (cases "filter_from e col ?sd t1")
      case (Inl x)
      then show ?thesis using a Inr filter_from_Inl by (simp add: prepare_def Let_def)
    next
      case t2: (Inr t2)
      show ?thesis
      proof (cases "filter_to e col ?ed t2")
        case (Inl x)
        then show ?thesis using a Inr t2 filter_to_Inl by (simp add: prepare_def Let_def)
      next
        case t3: (Inr t3)
        have "set (rows t3) \<subseteq> set (rows t1)"
          using filter_from_Inr[OF t2] filter_to_Inr[OF t3] by auto
        then have "\<forall>r\<in>set (rows t3). r col = Null \<or> is_Num (r col)" using dates by auto
        then obtain t4 where "sort_values col t3 = Inr t4" using sort_values_dates by blast
        then show ?thesis using a Inr t2 t3 by (simp add: prepare_def Let_def)
      qed
    qed
  qed
qed

lemma prepare_Inr:
  assumes "prepare e col sd ed t = Inr t4"
  shows "columns t4 = columns t \<and>
    (\<forall>r4\<in>set (rows t4). \<exists>r\<in>set (rows t). \<forall>c. c \<noteq> col \<longrightarrow> r4 c = r c)"
proof -
  let ?sd = "if \<not> truthy sd \<and> \<not> truthy ed then Some (five_years_ago e) else sd"
  let ?ed = "if \<not> truthy sd \<and> \<not> truthy ed then Some (today e) else ed"
  obtain t1 t2 t3 where t1: "to_datetime_column e col t = Inr t1"
    and t2: "filter_from e col ?sd t1 = Inr t2"
    and t3: "filter_to e col ?ed t2 = Inr t3"
    and t4: "sort_values col t3 = Inr t4"
    using assms by (auto simp: prepare_def Let_def bind_result_Inr)
  have sub: "set (rows t4) \<subseteq> set (rows t1)"
    using filter_from_Inr[OF t2] filter_to_Inr[OF t3] sort_values_Inr[OF t4] by auto
  have cols: "columns t4 = columns t"
    using to_datetime_column_Inr[OF t1] filter_from_Inr[OF t2] filter_to_Inr[OF t3]
      sort_values_Inr[OF t4] by simp
  have "\<forall>r1\<in>set (rows t1). \<exists>r\<in>set (rows t). \<forall>c. c \<noteq> col \<longrightarrow> r1 c = r c"
  proof
    fix r1 assume "r1 \<in> set (rows t1)"
    then obtain i where i: "i < length (rows t1)" "r1 = rows t1 ! i"
      by (auto simp: in_set_conv_nth)
    have l: "length (rows t) = length (rows t1)"
      and a: "\<forall>c. c \<noteq> col \<longrightarrow> (rows t1 ! i) c = (rows t ! i) c"
      using to_datetime_column_Inr[OF t1] i by (auto simp: list_all2_conv_all_nth)
    have "rows t ! i \<in> set (rows t)" using i l by simp
    then show "\<exists>r\<in>set (rows t). \<forall>c. c \<noteq> col \<longrightarrow> r1 c = r c" using a i by blast
  qed
  then show ?thesis using sub cols by blast
qed

lemma map_result_ok:
  "\<forall>x\<in>set xs. \<exists>y. f x = Inr y \<Longrightarrow> \<exists>ys. map_result f xs = Inr ys"
  by (induction xs) auto

lemma map_result_all:
  "map_result f xs = Inr ys \<Longrightarrow> \<forall>x\<in>set xs. \<exists>y. f x = Inr y"
  by (induction xs arbitrary: ys) (auto simp: bind_result_Inr)

lemma to_datetime_converts: "(\<exists>w. to_datetime e v = Inr w) \<longleftrightarrow> converts e v"
  by (cases v) (auto simp: converts_def split: option.splits)

lemma to_datetime_column_converts:
  "(\<exists>t1. to_datetime_column e col t = Inr t1) \<longleftrightarrow> list_all (\<lambda>r. converts e (r col)) (rows t)"
proof
  assume "\<exists>t1. to_datetime_column e col t = Inr t1"
  then obtain rs where "map_result
      (\<lambda>r. bind_result (to_datetime e (r col)) (\<lambda>v. Inr (r(col := v)))) (rows t) = Inr rs"
    by (auto simp: to_datetime_column_def bind_result_Inr)
  from map_result_all[OF this]
  have "\<forall>r\<in>set (rows t). \<exists>w. to_datetime e (r col) = Inr w"
    by (auto simp: bind_result_Inr)
  then show "list_all (\<lambda>r. converts e (r col)) (rows t)"
    by (simp add: list_all_iff to_datetime_converts)
next
  assume "list_all (\<lambda>r. converts e (r col)) (rows t)"
  then have "\<forall>r\<in>set (rows t). \<exists>w. to_datetime e (r col) = Inr w"
    by (simp add: list_all_iff to_datetime_converts)
  then have "\<forall>r\<in>set (rows t).
      \<exists>y. bind_result (to_datetime e (r col)) (\<lambda>v. Inr (r(col := v))) = Inr y"
    by (auto simp: bind_result_Inr)
  from map_result_ok[OF this] show "\<exists>t1. to_datetime_column e col t = Inr t1"
    by (auto simp: to_datetime_column_def)
qed

lemma filter_from_converts:
  "(\<exists>t'. filter_from e col d t = Inr t') \<longleftrightarrow> bound_converts e d"
  by (auto simp: filter_from_def bound_converts_def bind_result_Inr split: option.splits)

lemma filter_to_converts:
  "(\<exists>t'. filter_to e col d t = Inr t') \<longleftrightarrow> bound_converts e d"
  by (auto simp: filter_to_def bound_converts_def bind_result_Inr split: option.splits)

lemma prepare_converts:
  "(\<exists>t4. prepare e col sd ed t = Inr t4) \<longleftrightarrow> dates_convert e col sd ed t"
proof
  let ?sd = "if \<not> truthy sd \<and> \<not> truthy ed then Some (five_years_ago e) else sd"
  let ?ed = "if \<not> truthy sd \<and> \<not> truthy ed then Some (today e) else ed"
  {
    assume "\<exists>t4. prepare e col sd ed t = Inr t4"
    then obtain t1 t2 t3 where t1: "to_datetime_column e col t = Inr t1"
      and t2: "filter_from e col ?sd t1 = Inr t2"
      and t3: "filter_to e col ?ed t2 = Inr t3"
      by (auto simp: prepare_def Let_def bind_result_Inr)
    have "list_all (\<lambda>r. converts e (r col)) (rows t)"
      using t1 to_datetime_column_converts by blast
    moreover have "bound_converts e ?sd" using t2 filter_from_converts by blast
    moreover have "bound_converts e ?ed" using t3 filter_to_converts by blast
    ultimately show "dates_convert e col sd ed t"
      by (cases "\<not> truthy sd \<and> \<not> truthy ed") (auto simp: dates_convert_def)
  }
  {
    assume a: "dates_convert e col sd ed t"
    then have "list_all (\<lambda>r. converts e (r col)) (rows t)" by (simp add: dates_convert_def)
    then obtain t1 where t1: "to_datetime_column e col t = Inr t1"
      using to_datetime_column_converts by blast
    have dates: "\<forall>r\<in>set (rows t1). r col = Null \<or> is_Num (r col)"
      using to_datetime_column_Inr[OF t1] by (auto simp: list_all2_conv_all_nth in_set_conv_nth)
    have "bound_converts e ?sd" using a
      by (cases "\<not> truthy sd \<and> \<not> truthy ed") (auto simp: dates_convert_def)
    then obtain t2 where t2: "filter_from e col ?sd t1 = Inr t2"
      using filter_from_converts by blast
    have "bound_converts e ?ed" using a
      by (cases "\<not> truthy sd \<and> \<not> truthy ed") (auto simp: dates_convert_def)
    then obtain t3 where t3: "filter_to e col ?ed t2 = Inr t3"
      using filter_to_converts by blast
    have "set (rows t3) \<subseteq> set (rows t1)"
      using filter_from_Inr[OF t2] filter_to_Inr[OF t3] by auto
    then have "\<forall>r\<in>set (rows t3). r col = Null \<or> is_Num (r col)" using dates by auto
    then obtain t4 where "sort_values col t3 = Inr t4" using sort_values_dates by blast
    then show "\<exists>t4. prepare e col sd ed t = Inr t4"
      using t1 t2 t3 by (simp add: prepare_def Let_def)
  }
qed

lemma prepare_fails:
  "\<not> dates_convert e col sd ed t \<Longrightarrow> prepare e col sd ed t = Inl ParserError"
proof -
  assume "\<not> dates_convert e col sd ed t"
  then have "\<not> (\<exists>t4. prepare e col sd ed t = Inr t4)" using prepare_converts by blast
  then obtain err where "prepare e col sd ed t = Inl err"
    by (cases "prepare e col sd ed t") auto
  then show ?thesis using prepare_Inl by blast
qed

section \<open>Smaller facts\<close>

lemma df_empty_select:
  "columns df \<noteq> [] \<Longrightarrow>
   df_empty (select_eq df cc (Str name)) \<longleftrightarrow> \<not> (\<exists>r\<in>set (rows df). r cc = Str name)"
  by (auto simp: df_empty_def select_eq_def cell_eq_def filter_empty_conv)

lemma find_col_nonempty: "find P cols = Some c \<Longrightarrow> cols \<noteq> []"
  by auto

lemma columns_select_eq: "columns (select_eq df cc v) = columns df"
  by (simp add: select_eq_def)

lemma resolve_gold_none:
  "long_of k (resolve gold_columns) = None \<or> short_of k (resolve gold_columns) = None"
proof -
  have "resolve gold_columns = no_roles" by code_simp
  then show ?thesis by (cases k) (simp_all add: no_roles_def)
qed

lemma set_unique: "set (unique xs) = set xs"
  by (simp add: unique_def)

lemma distinct_unique: "distinct (unique xs)"
  by (simp add: unique_def)

lemma py_sorted_strings:
  assumes "\<forall>x\<in>set xs. is_Str x"
  shows "\<exists>ys. py_sorted nan_sorted xs = Inr ys \<and> sorted (map the_Str ys) \<and> set ys = set xs \<and>
    (distinct xs \<longrightarrow> distinct ys)"
proof (cases "length xs \<le> 1")
  case True
  then have "sorted (map the_Str xs)" by (cases xs) auto
  then show ?thesis using True by (simp add: py_sorted_def)
next
  case False
  have "list_all is_Str xs" using assms by (simp add: list_all_iff)
  then have "py_sorted nan_sorted xs = Inr (sort_key the_Str xs)"
    using False by (simp add: py_sorted_def)
  then show ?thesis by simp
qed

lemma py_sorted_mixed:
  assumes "x \<in> set xs" "is_Str x" "y \<in> set xs" "\<not> is_Str y"
  shows "py_sorted nan_sorted xs = Inl TypeError"
proof -
  have "x \<noteq> y" using assms by auto
  then have "\<not> length xs \<le> 1" using assms(1,3)
    by (cases xs; cases "tl xs") auto
  moreover have "\<not> list_all is_Str xs" using assms(3,4) by (auto simp: list_all_iff)
  moreover have "\<not> is_Num x" using assms(2) by (cases x) simp_all
  then have "\<not> list_all is_Num xs" using assms(1) by (auto simp: list_all_iff)
  moreover have "list_ex is_Str xs" using assms(1,2) by (auto simp: list_ex_iff)
  ultimately show ?thesis by (simp add: py_sorted_def)
qed

lemma py_sorted_numbers:
  assumes "\<forall>x\<in>set xs. is_Num x"
  shows "\<exists>ys. py_sorted nan_sorted xs = Inr ys \<and> sorted (map the_Num ys) \<and> set ys = set xs \<and>
    (distinct xs \<longrightarrow> distinct ys)"
proof (cases "length xs \<le> 1")
  case True
  then have "sorted (map the_Num xs)" by (cases xs) auto
  then show ?thesis using True by (simp add: py_sorted_def)
next
  case False
  have n: "list_all is_Num xs" using assms by (simp add: list_all_iff)
  obtain x where x: "x \<in> set xs" using False by (cases xs) auto
  then have "is_Num x" using assms by blast
  then have "\<not> is_Str x" by (cases x) simp_all
  then have "\<not> list_all is_Str xs" using x by (auto simp: list_all_iff)
  then have "py_sorted nan_sorted xs = Inr (sort_key the_Num xs)"
    using False n by (simp add: py_sorted_def)
  then show ?thesis by simp
qed

section \<open>Keeping the last row of each key, and sorting\<close>











section \<open>Consolidation, step by step\<close>


























section \<open>Claims about column resolution\<close>

text \<open>
  Claim C2, as the code has it. Within the first pass the last column, in column order,
  that passes a role's test is kept: every match overwrites the one before. Within the
  second pass, which is entered only when Noncommercial-Long or Noncommercial-Short
  is still unresolved, a role that the first pass left unresolved goes to the first
  column that passes its test, and later ones are ignored. A column that names both
  ``long'' and ``short'' is tested for Long first, so in the first pass it is never a
  Short column, and in the second pass it is a Short candidate unless it is the
  column that this pass gives to Long.
\<close>

theorem resolver_match_order:
  "long_of k (resolve cols) =
     (case last_match (long_rule ''positions'' k) cols of
        Some c \<Rightarrow> Some c
      | None \<Rightarrow> if pass2_runs cols then find (long_rule ''trader'' k) cols else None) \<and>
   short_of k (resolve cols) =
     (case last_match (short_only_rule ''positions'' k) cols of
        Some c \<Rightarrow> Some c
      | None \<Rightarrow>
          if pass2_runs cols then
            find (short_rule ''trader'' k)
              (if last_match (long_rule ''positions'' k) cols = None then short_candidates k cols
               else cols)
          else None)"
  using resolve_long[of k cols] resolve_short[of k cols] by simp

text \<open>
  At \<open>dup_columns\<close> the first pass keeps the second of the two Commercial-Long
  columns; at \<open>trader_columns\<close> the second pass keeps the first of them.
\<close>

theorem resolver_match_order_witness:
  "comm_long (resolve dup_columns) = Some ''Commercial Positions-Long (All) revised'' \<and>
   comm_long (resolve trader_columns) = Some ''Traders-Commercial-Long (All)'' \<and>
   comm_short (resolve trader_columns) = Some ''Traders-Commercial-Short (All)''"
proof -
  have a: "last_match (long_rule ''positions'' Commercial) dup_columns =
      Some ''Commercial Positions-Long (All) revised''" by code_simp
  have b: "last_match (long_rule ''positions'' Commercial) trader_columns = None" by code_simp
  have c: "pass2_runs trader_columns" by code_simp
  have d: "find (long_rule ''trader'' Commercial) trader_columns =
      Some ''Traders-Commercial-Long (All)''" by code_simp
  have e: "last_match (short_only_rule ''positions'' Commercial) trader_columns = None"
    by code_simp
  have f: "find (short_rule ''trader'' Commercial) (short_candidates Commercial trader_columns) =
      Some ''Traders-Commercial-Short (All)''" by code_simp
  show ?thesis
    using resolver_match_order[of Commercial dup_columns]
      resolver_match_order[of Commercial trader_columns] a b c d e f
    by simp
qed

text \<open>
  Claim C2 as stated fails: with two first-pass matches for Commercial-Long the resolver
  does not keep the first one.
\<close>

theorem first_match_counterexample:
  "find (long_rule ''positions'' Commercial) dup_columns = Some ''Commercial Positions-Long (All)'' \<and>
   long_rule ''positions'' Commercial ''Commercial Positions-Long (All) revised'' \<and>
   comm_long (resolve dup_columns) \<noteq> find (long_rule ''positions'' Commercial) dup_columns"
proof -
  have a: "find (long_rule ''positions'' Commercial) dup_columns =
      Some ''Commercial Positions-Long (All)''" by code_simp
  have b: "long_rule ''positions'' Commercial ''Commercial Positions-Long (All) revised''"
    by code_simp
  have c: "comm_long (resolve dup_columns) = Some ''Commercial Positions-Long (All) revised''"
    by code_simp
  from a b c show ?thesis by simp
qed

text \<open>
  Claim C3, as the code has it. A role that the first pass resolved keeps its
  ``positions'' column. The second pass is entered only when Noncommercial-Long or
  Noncommercial-Short is unresolved after the first. When it is entered, a Long role
  that the first pass left unresolved is the first column in column order that passes
  the ``trader'' test for Long of its category, and unresolved when there is none; a
  Short role that the first pass left unresolved is the first column that passes the
  ``trader'' test for Short of its category, and unresolved when there is none, where
  the column that the second pass gives to Long of the same category is not among the
  candidates. When the second pass is not entered, the result is that of the first
  pass alone.
\<close>

theorem traders_fallback:
  "(last_match (long_rule ''positions'' k) cols = Some c \<longrightarrow> long_of k (resolve cols) = Some c) \<and>
   (last_match (short_only_rule ''positions'' k) cols = Some c \<longrightarrow>
      short_of k (resolve cols) = Some c) \<and>
   (pass2_runs cols \<and> last_match (long_rule ''positions'' k) cols = None \<longrightarrow>
      long_of k (resolve cols) = find (long_rule ''trader'' k) cols) \<and>
   (pass2_runs cols \<and> last_match (short_only_rule ''positions'' k) cols = None \<longrightarrow>
      short_of k (resolve cols) =
        find (short_rule ''trader'' k)
          (if last_match (long_rule ''positions'' k) cols = None then short_candidates k cols
           else cols)) \<and>
   (\<not> pass2_runs cols \<longrightarrow> resolve cols = pass1 cols)"
proof (intro conjI impI)
  assume "last_match (long_rule ''positions'' k) cols = Some c"
  then show "long_of k (resolve cols) = Some c" by (simp add: resolve_long)
next
  assume "last_match (short_only_rule ''positions'' k) cols = Some c"
  then show "short_of k (resolve cols) = Some c" by (simp add: resolve_short)
next
  assume "pass2_runs cols \<and> last_match (long_rule ''positions'' k) cols = None"
  then show "long_of k (resolve cols) = find (long_rule ''trader'' k) cols"
    by (simp add: resolve_long)
next
  assume "pass2_runs cols \<and> last_match (short_only_rule ''positions'' k) cols = None"
  then show "short_of k (resolve cols) =
        find (short_rule ''trader'' k)
          (if last_match (long_rule ''positions'' k) cols = None then short_candidates k cols
           else cols)"
    by (simp add: resolve_short)
next
  assume "\<not> pass2_runs cols"
  then show "resolve cols = pass1 cols" by (simp add: resolve_unfold)
qed

text \<open>
  At \<open>mixed_columns\<close> Commercial-Long keeps its positions column although a trader
  column precedes it, and both Noncommercial roles fall back to trader columns; at
  \<open>gated_columns\<close> the second pass is not entered; at \<open>both_columns\<close> the one
  column goes to Commercial-Long and Commercial-Short stays unresolved.
\<close>

theorem traders_fallback_witness:
  "long_of Commercial (resolve mixed_columns) = Some ''Commercial Positions-Long (All)'' \<and>
   short_of NonCommercial (resolve gated_columns) = Some ''Noncommercial Positions-Short (All)'' \<and>
   long_of NonCommercial (resolve mixed_columns) = Some ''Traders-Noncommercial-Long (All)'' \<and>
   short_of NonCommercial (resolve mixed_columns) = Some ''Traders-Noncommercial-Short (All)'' \<and>
   long_of Commercial (resolve both_columns) = Some ''Traders-Commercial-Long-Short (All)'' \<and>
   short_of Commercial (resolve both_columns) = None \<and>
   resolve gated_columns = pass1 gated_columns"
proof -
  have a: "last_match (long_rule ''positions'' Commercial) mixed_columns =
      Some ''Commercial Positions-Long (All)''" by code_simp
  have b: "last_match (short_only_rule ''positions'' NonCommercial) gated_columns =
      Some ''Noncommercial Positions-Short (All)''" by code_simp
  have c: "pass2_runs mixed_columns" by code_simp
  have d: "last_match (long_rule ''positions'' NonCommercial) mixed_columns = None"
    by code_simp
  have e: "find (long_rule ''trader'' NonCommercial) mixed_columns =
      Some ''Traders-Noncommercial-Long (All)''" by code_simp
  have f: "last_match (short_only_rule ''positions'' NonCommercial) mixed_columns = None"
    by code_simp
  have g: "find (short_rule ''trader'' NonCommercial) (short_candidates NonCommercial mixed_columns) =
      Some ''Traders-Noncommercial-Short (All)''" by code_simp
  have h: "\<not> pass2_runs gated_columns" by code_simp
  have i: "pass2_runs both_columns" by code_simp
  have j: "last_match (long_rule ''positions'' Commercial) both_columns = None" by code_simp
  have k: "find (long_rule ''trader'' Commercial) both_columns =
      Some ''Traders-Commercial-Long-Short (All)''" by code_simp
  have l: "last_match (short_only_rule ''positions'' Commercial) both_columns = None"
    by code_simp
  have m: "find (short_rule ''trader'' Commercial) (short_candidates Commercial both_columns) =
      None" by code_simp
  have 1: "long_of Commercial (resolve mixed_columns) = Some ''Commercial Positions-Long (All)''"
    using traders_fallback[of Commercial mixed_columns "''Commercial Positions-Long (All)''"] a
    by blast
  have 2: "short_of NonCommercial (resolve gated_columns) =
      Some ''Noncommercial Positions-Short (All)''"
    using traders_fallback[of NonCommercial gated_columns "''Noncommercial Positions-Short (All)''"]
      b by blast
  have 3: "long_of NonCommercial (resolve mixed_columns) = Some ''Traders-Noncommercial-Long (All)''"
    using traders_fallback[of NonCommercial mixed_columns "[]"] c d e by simp
  have 4: "short_of NonCommercial (resolve mixed_columns) =
      Some ''Traders-Noncommercial-Short (All)''"
    using traders_fallback[of NonCommercial mixed_columns "[]"] c d f g by simp
  have 5: "long_of Commercial (resolve both_columns) = Some ''Traders-Commercial-Long-Short (All)''"
    using traders_fallback[of Commercial both_columns "[]"] i j k by simp
  have 6: "short_of Commercial (resolve both_columns) = None"
    using traders_fallback[of Commercial both_columns "[]"] i j l m by simp
  have 7: "resolve gated_columns = pass1 gated_columns"
    using traders_fallback[of Commercial gated_columns "[]"] h by blast
  from 1 2 3 4 5 6 7 show ?thesis by blast
qed

text \<open>
  Claim C3 as stated fails twice. At \<open>gated_columns\<close> no positions column matches
  Commercial-Long and a valid trader column is present, yet the role stays unresolved,
  because both Noncommercial roles were resolved in the first pass. At
  \<open>both_columns\<close> the second pass is entered, Commercial-Short is unresolved after
  the first pass and the one column passes the ``trader'' test for Commercial-Short,
  yet the role stays unresolved, because the column was given to Commercial-Long.
\<close>

theorem traders_fallback_counterexample:
  "last_match (long_rule ''positions'' Commercial) gated_columns = None \<and>
   long_rule ''trader'' Commercial ''Traders-Commercial-Long (All)'' \<and>
   ''Traders-Commercial-Long (All)'' \<in> set gated_columns \<and>
   comm_long (resolve gated_columns) = None \<and>
   pass2_runs both_columns \<and>
   comm_short (pass1 both_columns) = None \<and>
   short_rule ''trader'' Commercial ''Traders-Commercial-Long-Short (All)'' \<and>
   ''Traders-Commercial-Long-Short (All)'' \<in> set both_columns \<and>
   comm_long (resolve both_columns) = Some ''Traders-Commercial-Long-Short (All)'' \<and>
   comm_short (resolve both_columns) = None"
proof -
  have a: "last_match (long_rule ''positions'' Commercial) gated_columns = None" by code_simp
  have b: "long_rule ''trader'' Commercial ''Traders-Commercial-Long (All)''" by code_simp
  have c: "comm_long (resolve gated_columns) = None" by code_simp
  have d: "pass2_runs both_columns" by code_simp
  have e: "comm_short (pass1 both_columns) = None" by code_simp
  have f: "short_rule ''trader'' Commercial ''Traders-Commercial-Long-Short (All)''" by code_simp
  have g: "comm_long (resolve both_columns) = Some ''Traders-Commercial-Long-Short (All)''"
    by code_simp
  have h: "comm_short (resolve both_columns) = None" by code_simp
  from a b c d e f g h show ?thesis by (simp add: gated_columns_def both_columns_def)
qed

section \<open>The end-to-end example\<close>

text \<open>
  Claim C1. On the table of the example no role resolves: the names hold ``comm'' and
  ``_all'' where the tests ask for ``commercial'' and ``(all)''. The run prints that
  no position columns were found, lists the columns, and leaves no
  \<open>Commercial_Net\<close> column.
\<close>

theorem gold_example_unresolved:
  "resolve gold_columns = no_roles \<and>
   cat_of (lower ''Comm_Positions_Long_All'') = None \<and>
   \<not> is_long (lower ''Comm_Positions_Long_All'') \<and>
   (case plot_trader_positions env0 gold_table ''GOLD'' ''legacy_fut'' None None of
      Inl err \<Rightarrow> False
    | Inr out \<Rightarrow>
        printed out = [NoPositionColumns ''legacy_fut'', AvailableColumns gold_columns] \<and>
        trader_data out = [] \<and> \<not> drawn out \<and>
        ''Commercial_Net'' \<notin> set (columns (plot_df out)) \<and>
        map (\<lambda>r. r ''Commercial_Net'') (rows (plot_df out)) = [Null])"
proof -
  have a: "resolve gold_columns = no_roles" by code_simp
  have b: "cat_of (lower ''Comm_Positions_Long_All'') = None" by code_simp
  have c: "\<not> is_long (lower ''Comm_Positions_Long_All'')" by code_simp
  have d: "(case plot_trader_positions env0 gold_table ''GOLD'' ''legacy_fut'' None None of
      Inl err \<Rightarrow> False
    | Inr out \<Rightarrow>
        printed out = [NoPositionColumns ''legacy_fut'', AvailableColumns gold_columns] \<and>
        trader_data out = [] \<and> \<not> drawn out \<and>
        ''Commercial_Net'' \<notin> set (columns (plot_df out)) \<and>
        map (\<lambda>r. r ''Commercial_Net'') (rows (plot_df out)) = [Null])" by code_simp
  from a b c d show ?thesis by blast
qed

text \<open>In particular neither Commercial role is resolved there.\<close>

theorem gold_example_unresolved_witness:
  "comm_long (resolve gold_columns) = None \<and> comm_short (resolve gold_columns) = None"
  using gold_example_unresolved by (simp add: no_roles_def)

section \<open>Consolidation without a date column\<close>

text \<open>
  Claim C8. Two report types whose tables name the same contract and have no column
  with ``date'' in its name: the second one reaches \<open>[...][0]\<close> on an empty list,
  and the whole consolidation ends in \<open>IndexError\<close>.
\<close>

theorem consolidate_undated_raises:
  "(case consolidate_by_contract [(''legacy_fut'', undated_a), (''legacy_futopt'', undated_b)] of
      Inl err \<Rightarrow> err = IndexError | Inr st \<Rightarrow> False)"
  by code_simp

text \<open>Written as an equation: the function's result on these two tables.\<close>

theorem consolidate_undated_raises_witness:
  "consolidate_by_contract [(''legacy_fut'', undated_a), (''legacy_futopt'', undated_b)] =
     Inl IndexError"
  using consolidate_undated_raises
  by (cases "consolidate_by_contract [(''legacy_fut'', undated_a), (''legacy_futopt'', undated_b)]")
    simp_all

section \<open>Claims about net-position derivation\<close>

text \<open>What the resolver finds on the long legacy column names.\<close>

lemma resolve_legacy_columns:
  "long_of Commercial (resolve legacy_columns) = Some ''Commercial Positions-Long (All)'' \<and>
   short_of Commercial (resolve legacy_columns) = Some ''Commercial Positions-Short (All)'' \<and>
   source_columns (resolve legacy_columns) =
     [''Commercial Positions-Long (All)'', ''Commercial Positions-Short (All)'']"
  by code_simp

lemma distinct_legacy_columns: "distinct legacy_columns"
  by (simp add: legacy_columns_def)


lemma derive_entry:
  assumes "pair_columns (long_of k r) (short_of k r) \<noteq> []"
    and "td = (if pair_columns (comm_long r) (comm_short r) = []
            then [] else [(''Large Commercials'', ''Commercial_Net'', ''red'')]) @
         (if pair_columns (noncomm_long r) (noncomm_short r) = []
            then [] else [(''Large Speculators'', ''NonCommercial_Net'', ''blue'')]) @
         (if pair_columns (small_long r) (small_short r) = []
            then [] else [(''Small Speculators'', ''NonReportable_Net'', ''yellow'')])"
  shows "\<exists>label color. (label, net_column k, color) \<in> set td"
  using assms by (cases k) auto

text \<open>
  Claim C4, as the code has it. Take a category whose Long and Short roles are both
  resolved, in a table where no resolved source column is named twice. Derivation
  returns, the category is entered in \<open>trader_data\<close>, and the derived column is the
  difference of the two coerced columns in the arithmetic of their dtypes
  (\<open>net_of\<close>). On the rows of a table whose counts and differences stay within
  \<open>2^53\<close> this is, row by row, the number read in the Long cell minus the number
  read in the Short cell, where a number is read as itself, a string as what it
  parses to, and a missing cell or an unparsable string as zero.
\<close>

theorem net_is_long_minus_short:
  assumes "long_of k (resolve (columns t)) = Some l"
    and "short_of k (resolve (columns t)) = Some s"
    and "\<forall>c\<in>set (source_columns (resolve (columns t))). \<not> duplicated c (columns t)"
  shows "\<exists>t' td. derive e (resolve (columns t)) t = Inr (t', td) \<and>
    (\<exists>label color. (label, net_column k, color) \<in> set td) \<and>
    column t' (net_column k) = net_of e (column t l) (column t s) \<and>
    ((\<forall>row\<in>set (rows t). exact_pair (numeric e (row l)) (numeric e (row s))) \<longrightarrow>
       column t' (net_column k) =
         map (\<lambda>row. Num (numeric e (row l) - numeric e (row s))) (rows t)) \<and>
    numeric e (Num n) = n \<and>
    numeric e Null = 0 \<and>
    numeric e (Str x) = (case parse_number e x of None \<Rightarrow> 0 | Some p \<Rightarrow> snd p)"
proof -
  let ?r = "resolve (columns t)"
  obtain t' td where d: "derive e ?r t = Inr (t', td)"
    and td: "td = (if pair_columns (comm_long ?r) (comm_short ?r) = []
            then [] else [(''Large Commercials'', ''Commercial_Net'', ''red'')]) @
         (if pair_columns (noncomm_long ?r) (noncomm_short ?r) = []
            then [] else [(''Large Speculators'', ''NonCommercial_Net'', ''blue'')]) @
         (if pair_columns (small_long ?r) (small_short ?r) = []
            then [] else [(''Small Speculators'', ''NonReportable_Net'', ''yellow'')])"
    and nets: "\<forall>k l s. long_of k ?r = Some l \<and> short_of k ?r = Some s \<longrightarrow>
       column t' (net_column k) = net_of e (column t l) (column t s)"
    using derive_ok[OF assms(3), of e] by blast
  have p: "pair_columns (long_of k ?r) (short_of k ?r) = [l, s]"
    using pair_columns_resolved assms(1,2) by blast
  then have "pair_columns (long_of k ?r) (short_of k ?r) \<noteq> []" by simp
  then have entry: "\<exists>label color. (label, net_column k, color) \<in> set td"
    using td by (rule derive_entry)
  have net: "column t' (net_column k) = net_of e (column t l) (column t s)"
    using nets assms(1,2) by blast
  have exact: "column t' (net_column k) =
      map (\<lambda>row. Num (numeric e (row l) - numeric e (row s))) (rows t)"
    if a: "\<forall>row\<in>set (rows t). exact_pair (numeric e (row l)) (numeric e (row s))"
  proof -
    have "list_all2 exact_pair (map (numeric e) (column t l)) (map (numeric e) (column t s))"
      using a by (simp add: column_def list_all2_map1 list_all2_map2 list_all2_same)
    from net_of_exact[OF this]
    have "net_of e (column t l) (column t s) =
        map (\<lambda>row. Num (numeric e (row l) - numeric e (row s))) (rows t)"
      by (simp add: column_def zip_map_map zip_same_conv_map o_def)
    then show ?thesis using net by simp
  qed
  have num: "numeric e (Num n) = n" "numeric e Null = 0"
    "numeric e (Str x) = (case parse_number e x of None \<Rightarrow> 0 | Some p \<Rightarrow> snd p)"
    by (simp_all add: numeric_def to_numeric_def)
  from d entry net exact num show ?thesis by blast
qed

text \<open>
  On the legacy table the net is 1000 - 400 = 600; with the dot in the Long cell it is
  0 - 400.
\<close>

theorem net_is_long_minus_short_witness:
  "(\<exists>t' td. derive env0 (resolve (columns legacy_table)) legacy_table = Inr (t', td) \<and>
      column t' ''Commercial_Net'' = [Num 600]) \<and>
   (\<exists>t' td. derive env0 (resolve (columns dotted_table)) dotted_table = Inr (t', td) \<and>
      column t' ''Commercial_Net'' = [Num (- 400)])"
proof -
  have a: "long_of Commercial (resolve (columns legacy_table)) =
      Some ''Commercial Positions-Long (All)''"
    "short_of Commercial (resolve (columns legacy_table)) =
      Some ''Commercial Positions-Short (All)''"
    using resolve_legacy_columns by (simp_all add: legacy_table_def)
  have b: "long_of Commercial (resolve (columns dotted_table)) =
      Some ''Commercial Positions-Long (All)''"
    "short_of Commercial (resolve (columns dotted_table)) =
      Some ''Commercial Positions-Short (All)''"
    using resolve_legacy_columns by (simp_all add: dotted_table_def)
  have da: "\<forall>c\<in>set (source_columns (resolve (columns legacy_table))).
      \<not> duplicated c (columns legacy_table)"
    using not_duplicated[OF distinct_legacy_columns] by (simp add: legacy_table_def)
  have db: "\<forall>c\<in>set (source_columns (resolve (columns dotted_table))).
      \<not> duplicated c (columns dotted_table)"
    using not_duplicated[OF distinct_legacy_columns] by (simp add: dotted_table_def)
  have ea: "\<forall>row\<in>set (rows legacy_table).
      exact_pair (numeric env0 (row ''Commercial Positions-Long (All)''))
        (numeric env0 (row ''Commercial Positions-Short (All)''))"
    by (simp add: legacy_table_def legacy_row_def numeric_def to_numeric_def exact_pair_def)
  have eb: "\<forall>row\<in>set (rows dotted_table).
      exact_pair (numeric env0 (row ''Commercial Positions-Long (All)''))
        (numeric env0 (row ''Commercial Positions-Short (All)''))"
    by (simp add: dotted_table_def dotted_row_def numeric_def to_numeric_def exact_pair_def
        env0_def)
  have 1: "\<exists>t' td. derive env0 (resolve (columns legacy_table)) legacy_table = Inr (t', td) \<and>
      column t' ''Commercial_Net'' = [Num 600]"
    using net_is_long_minus_short[OF a da, of env0] ea
    by (auto simp: legacy_table_def legacy_row_def numeric_def to_numeric_def)
  have 2: "\<exists>t' td. derive env0 (resolve (columns dotted_table)) dotted_table = Inr (t', td) \<and>
      column t' ''Commercial_Net'' = [Num (- 400)]"
    using net_is_long_minus_short[OF b db, of env0] eb
    by (auto simp: dotted_table_def dotted_row_def numeric_def to_numeric_def env0_def)
  from 1 2 show ?thesis by blast
qed

text \<open>
  Claim C4 as stated fails in three ways. Two \<open>int64\<close> columns are subtracted as
  \<open>int64\<close>: the largest count minus \<open>-1\<close> wraps around to the smallest. A column
  with an unparsable cell becomes \<open>float64\<close>, where \<open>2^53 + 1\<close> is rounded to
  \<open>2^53\<close> before the subtraction. And when the name of a resolved column occurs twice
  among the columns, coercion raises \<open>TypeError\<close> and no net column is produced.
\<close>

theorem net_is_long_minus_short_counterexample:
  "long_of Commercial (resolve (columns wide_table)) = Some ''Commercial Positions-Long (All)'' \<and>
   short_of Commercial (resolve (columns wide_table)) = Some ''Commercial Positions-Short (All)'' \<and>
   column wide_table ''Commercial Positions-Long (All)'' = [Num 9223372036854775807] \<and>
   column wide_table ''Commercial Positions-Short (All)'' = [Num (- 1)] \<and>
   (case derive env0 (resolve (columns wide_table)) wide_table of
      Inl err \<Rightarrow> False
    | Inr d \<Rightarrow> column (fst d) ''Commercial_Net'' = [Num (- 9223372036854775808)]) \<and>
   column rounded_table ''Commercial Positions-Long (All)'' = [Num 9007199254740993, Str ''.''] \<and>
   column rounded_table ''Commercial Positions-Short (All)'' = [Num 0, Num 0] \<and>
   (case derive env0 (resolve (columns rounded_table)) rounded_table of
      Inl err \<Rightarrow> False
    | Inr d \<Rightarrow> column (fst d) ''Commercial_Net'' = [Num 9007199254740992, Num 0]) \<and>
   long_of Commercial (resolve (columns repeated_table)) =
     Some ''Commercial Positions-Long (All)'' \<and>
   short_of Commercial (resolve (columns repeated_table)) =
     Some ''Commercial Positions-Short (All)'' \<and>
   (case derive env0 (resolve (columns repeated_table)) repeated_table of
      Inl err \<Rightarrow> err = TypeError
    | Inr d \<Rightarrow> False)"
proof -
  have a: "long_of Commercial (resolve (columns wide_table)) =
      Some ''Commercial Positions-Long (All)''" by code_simp
  have b: "short_of Commercial (resolve (columns wide_table)) =
      Some ''Commercial Positions-Short (All)''" by code_simp
  have c: "column wide_table ''Commercial Positions-Long (All)'' = [Num 9223372036854775807]"
    by code_simp
  have d: "column wide_table ''Commercial Positions-Short (All)'' = [Num (- 1)]" by code_simp
  have e: "(case derive env0 (resolve (columns wide_table)) wide_table of
      Inl err \<Rightarrow> False
    | Inr d \<Rightarrow> column (fst d) ''Commercial_Net'' = [Num (- 9223372036854775808)])"
    by code_simp
  have f: "column rounded_table ''Commercial Positions-Long (All)'' =
      [Num 9007199254740993, Str ''.'']" by code_simp
  have g: "column rounded_table ''Commercial Positions-Short (All)'' = [Num 0, Num 0]"
    by code_simp
  have h: "(case derive env0 (resolve (columns rounded_table)) rounded_table of
      Inl err \<Rightarrow> False
    | Inr d \<Rightarrow> column (fst d) ''Commercial_Net'' = [Num 9007199254740992, Num 0])"
    by code_simp
  have i: "long_of Commercial (resolve (columns repeated_table)) =
     Some ''Commercial Positions-Long (All)''" by code_simp
  have j: "short_of Commercial (resolve (columns repeated_table)) =
     Some ''Commercial Positions-Short (All)''" by code_simp
  have k: "(case derive env0 (resolve (columns repeated_table)) repeated_table of
      Inl err \<Rightarrow> err = TypeError
    | Inr d \<Rightarrow> False)" by code_simp
  from a b c d e f g h i j k show ?thesis by blast
qed




section \<open>Claims about the outcomes of plot_trader_positions\<close>

text \<open>
  Claim C6, as the code has it. When no category has both its Long and its Short role
  resolved, derivation returns the table as it is with no entry in \<open>trader_data\<close>,
  and the legacy branch prints that no position columns were found, followed by the
  table's column names; neither raises. For the whole function on a legacy report
  type and a table of distinct column names, with the date and identifier columns
  found and a row for the contract: when the dates convert, the run ends with those
  two printed lines, an empty \<open>trader_data\<close>, no chart and the prepared rows of the
  contract as \<open>plot_df\<close>; when a date cell or a bound of the date range does not
  convert, the run raises the parser's error before derivation starts.
\<close>

theorem no_category_reported:
  assumes "\<forall>k. long_of k (resolve (columns df)) = None \<or> short_of k (resolve (columns df)) = None"
  shows "derive e (resolve (columns df)) df = Inr (df, []) \<and>
    plot_legacy e rt df =
      Inr \<lparr>printed = [NoPositionColumns rt, AvailableColumns (columns df)], trader_data = [],
           plot_df = df, drawn = False\<rparr> \<and>
    (contains ''legacy'' (lower rt) \<and> distinct (columns df) \<and>
     find_date_col (columns df) = Some dc \<and> find_contract_col (columns df) = Some cc \<and>
     (\<exists>r\<in>set (rows df). r cc = Str name) \<longrightarrow>
       (dates_convert e dc sd ed (select_eq df cc (Str name)) \<longrightarrow>
          (\<exists>t4. prepare e dc sd ed (select_eq df cc (Str name)) = Inr t4 \<and>
             columns t4 = columns df \<and>
             plot_trader_positions e df name rt sd ed =
               Inr \<lparr>printed = [NoPositionColumns rt, AvailableColumns (columns df)],
                    trader_data = [], plot_df = t4, drawn = False\<rparr>)) \<and>
       (\<not> dates_convert e dc sd ed (select_eq df cc (Str name)) \<longrightarrow>
          plot_trader_positions e df name rt sd ed = Inl ParserError))"
proof (intro conjI impI)
  show "derive e (resolve (columns df)) df = Inr (df, [])" using assms by (rule derive_none)
  show "plot_legacy e rt df =
      Inr \<lparr>printed = [NoPositionColumns rt, AvailableColumns (columns df)], trader_data = [],
           plot_df = df, drawn = False\<rparr>" using assms by (rule plot_legacy_none)
next
  assume a: "contains ''legacy'' (lower rt) \<and> distinct (columns df) \<and>
     find_date_col (columns df) = Some dc \<and> find_contract_col (columns df) = Some cc \<and>
     (\<exists>r\<in>set (rows df). r cc = Str name)"
  assume c: "dates_convert e dc sd ed (select_eq df cc (Str name))"
  let ?t0 = "select_eq df cc (Str name)"
  have ne: "\<not> df_empty ?t0"
    using a df_empty_select[of df cc name] find_col_nonempty[of _ "columns df" cc]
    by (auto simp: find_contract_col_def)
  have unf: "plot_trader_positions e df name rt sd ed =
      bind_result (prepare e dc sd ed ?t0) (\<lambda>t4. plot_legacy e rt t4)"
    using a ne by (simp add: plot_trader_positions_def Let_def)
  obtain t4 where t4: "prepare e dc sd ed ?t0 = Inr t4" using c prepare_converts by blast
  have cols: "columns t4 = columns df"
    using prepare_Inr[OF t4] by (simp add: columns_select_eq)
  then have "\<forall>k. long_of k (resolve (columns t4)) = None \<or>
      short_of k (resolve (columns t4)) = None" using assms by simp
  from plot_legacy_none[OF this, of e rt]
  have "plot_trader_positions e df name rt sd ed =
      Inr \<lparr>printed = [NoPositionColumns rt, AvailableColumns (columns df)],
           trader_data = [], plot_df = t4, drawn = False\<rparr>"
    using unf t4 cols by simp
  then show "\<exists>t4. prepare e dc sd ed (select_eq df cc (Str name)) = Inr t4 \<and>
             columns t4 = columns df \<and>
             plot_trader_positions e df name rt sd ed =
               Inr \<lparr>printed = [NoPositionColumns rt, AvailableColumns (columns df)],
                    trader_data = [], plot_df = t4, drawn = False\<rparr>"
    using t4 cols by blast
next
  assume a: "contains ''legacy'' (lower rt) \<and> distinct (columns df) \<and>
     find_date_col (columns df) = Some dc \<and> find_contract_col (columns df) = Some cc \<and>
     (\<exists>r\<in>set (rows df). r cc = Str name)"
  assume c: "\<not> dates_convert e dc sd ed (select_eq df cc (Str name))"
  let ?t0 = "select_eq df cc (Str name)"
  have ne: "\<not> df_empty ?t0"
    using a df_empty_select[of df cc name] find_col_nonempty[of _ "columns df" cc]
    by (auto simp: find_contract_col_def)
  have unf: "plot_trader_positions e df name rt sd ed =
      bind_result (prepare e dc sd ed ?t0) (\<lambda>t4. plot_legacy e rt t4)"
    using a ne by (simp add: plot_trader_positions_def Let_def)
  show "plot_trader_positions e df name rt sd ed = Inl ParserError"
    using unf prepare_fails[OF c] by simp
qed

text \<open>
  The table of the end-to-end example is such a table and its date converts; with the
  date replaced by \<open>n/a\<close> the run raises.
\<close>

theorem no_category_reported_witness:
  "derive env0 (resolve (columns gold_table)) gold_table = Inr (gold_table, []) \<and>
   (\<exists>t4. plot_trader_positions env0 gold_table ''GOLD'' ''legacy_fut'' None None =
      Inr \<lparr>printed = [NoPositionColumns ''legacy_fut'', AvailableColumns (columns gold_table)],
           trader_data = [], plot_df = t4, drawn = False\<rparr>) \<and>
   plot_trader_positions env0 misdated_table ''GOLD'' ''legacy_fut'' None None = Inl ParserError"
proof -
  have h: "\<forall>k. long_of k (resolve (columns gold_table)) = None \<or>
      short_of k (resolve (columns gold_table)) = None"
    using resolve_gold_none by (simp add: gold_table_def)
  have h': "\<forall>k. long_of k (resolve (columns misdated_table)) = None \<or>
      short_of k (resolve (columns misdated_table)) = None"
    using resolve_gold_none by (simp add: misdated_table_def)
  have a: "contains ''legacy'' (lower ''legacy_fut'')" by code_simp
  have b: "find_date_col (columns gold_table) = Some ''Report_Date_as_YYYY-MM-DD''"
    by code_simp
  have c: "find_contract_col (columns gold_table) = Some ''Market_and_Exchange_Names''"
    by code_simp
  have d: "\<exists>r\<in>set (rows gold_table). r ''Market_and_Exchange_Names'' = Str ''GOLD''"
    by code_simp
  have e: "dates_convert env0 ''Report_Date_as_YYYY-MM-DD'' None None
      (select_eq gold_table ''Market_and_Exchange_Names'' (Str ''GOLD''))" by code_simp
  have g: "distinct (columns gold_table)" "distinct (columns misdated_table)"
    by (simp_all add: gold_table_def misdated_table_def gold_columns_def)
  have b': "find_date_col (columns misdated_table) = Some ''Report_Date_as_YYYY-MM-DD''"
    by code_simp
  have c': "find_contract_col (columns misdated_table) = Some ''Market_and_Exchange_Names''"
    by code_simp
  have d': "\<exists>r\<in>set (rows misdated_table). r ''Market_and_Exchange_Names'' = Str ''GOLD''"
    by code_simp
  have e': "\<not> dates_convert env0 ''Report_Date_as_YYYY-MM-DD'' None None
      (select_eq misdated_table ''Market_and_Exchange_Names'' (Str ''GOLD''))" by code_simp
  have 1: "derive env0 (resolve (columns gold_table)) gold_table = Inr (gold_table, [])"
    using no_category_reported[OF h, of env0] by blast
  have 2: "\<exists>t4. plot_trader_positions env0 gold_table ''GOLD'' ''legacy_fut'' None None =
      Inr \<lparr>printed = [NoPositionColumns ''legacy_fut'', AvailableColumns (columns gold_table)],
           trader_data = [], plot_df = t4, drawn = False\<rparr>"
    using no_category_reported[OF h, of env0 "''legacy_fut''" "''Report_Date_as_YYYY-MM-DD''"
        "''Market_and_Exchange_Names''" "''GOLD''" None None] a b c d e g
    by blast
  have 3: "plot_trader_positions env0 misdated_table ''GOLD'' ''legacy_fut'' None None =
      Inl ParserError"
    using no_category_reported[OF h', of env0 "''legacy_fut''" "''Report_Date_as_YYYY-MM-DD''"
        "''Market_and_Exchange_Names''" "''GOLD''" None None] a b' c' d' e' g
    by blast
  from 1 2 3 show ?thesis by blast
qed

text \<open>
  Claim C6 as stated fails: on the table of the end-to-end example with an unparsable
  date, no category resolves and the run on a legacy report type raises instead of
  printing the two lines.
\<close>

theorem no_category_reported_counterexample:
  "resolve (columns misdated_table) = no_roles \<and>
   source_columns (resolve (columns misdated_table)) = [] \<and>
   find_date_col (columns misdated_table) = Some ''Report_Date_as_YYYY-MM-DD'' \<and>
   column misdated_table ''Report_Date_as_YYYY-MM-DD'' = [Str ''n/a''] \<and>
   parse_date env0 ''n/a'' = None \<and>
   (case plot_trader_positions env0 misdated_table ''GOLD'' ''legacy_fut'' None None of
      Inl err \<Rightarrow> err = ParserError
    | Inr out \<Rightarrow> False)"
proof -
  have a: "resolve (columns misdated_table) = no_roles" by code_simp
  have b: "source_columns (resolve (columns misdated_table)) = []" by code_simp
  have c: "find_date_col (columns misdated_table) = Some ''Report_Date_as_YYYY-MM-DD''"
    by code_simp
  have d: "column misdated_table ''Report_Date_as_YYYY-MM-DD'' = [Str ''n/a'']" by code_simp
  have e: "parse_date env0 ''n/a'' = None" by code_simp
  have f: "(case plot_trader_positions env0 misdated_table ''GOLD'' ''legacy_fut'' None None of
      Inl err \<Rightarrow> err = ParserError
    | Inr out \<Rightarrow> False)" by code_simp
  from a b c d e f show ?thesis by blast
qed




section \<open>Claims about get_available_contracts\<close>

text \<open>
  Claim C10, as the code has it. The result is the empty list when the report type is
  not a key, when its table is empty, and when no column name contains ``market'' or
  ``contract''. Otherwise the column looked at is the first such column. When its name
  occurs twice among the columns the function raises \<open>AttributeError\<close>. When it
  occurs once: with identifier cells that are all strings, or all numbers, the result
  is the list of the distinct values of the column in ascending order; with a string
  beside a number or a missing cell, the function raises \<open>TypeError\<close>.
\<close>

theorem available_contracts:
  "(map_of dataframes report_type = None \<longrightarrow>
      get_available_contracts nan_sorted dataframes report_type = Inr []) \<and>
   (map_of dataframes report_type = Some df \<and> df_empty df \<longrightarrow>
      get_available_contracts nan_sorted dataframes report_type = Inr []) \<and>
   (map_of dataframes report_type = Some df \<and> find_contract_col (columns df) = None \<longrightarrow>
      get_available_contracts nan_sorted dataframes report_type = Inr []) \<and>
   (map_of dataframes report_type = Some df \<and> \<not> df_empty df \<and>
    find_contract_col (columns df) = Some col \<longrightarrow>
      (\<exists>before after. columns df = before @ col # after \<and>
         (contains ''market'' (lower col) \<or> contains ''contract'' (lower col)) \<and>
         (\<forall>c\<in>set before. \<not> (contains ''market'' (lower c) \<or> contains ''contract'' (lower c)))) \<and>
      (duplicated col (columns df) \<longrightarrow>
         get_available_contracts nan_sorted dataframes report_type = Inl AttributeError) \<and>
      (\<not> duplicated col (columns df) \<and> (\<forall>r\<in>set (rows df). is_Str (r col)) \<longrightarrow>
         (\<exists>ys. get_available_contracts nan_sorted dataframes report_type = Inr ys \<and>
            sorted (map the_Str ys) \<and> distinct ys \<and> set ys = (\<lambda>r. r col) ` set (rows df))) \<and>
      (\<not> duplicated col (columns df) \<and> (\<forall>r\<in>set (rows df). is_Num (r col)) \<longrightarrow>
         (\<exists>ys. get_available_contracts nan_sorted dataframes report_type = Inr ys \<and>
            sorted (map the_Num ys) \<and> distinct ys \<and> set ys = (\<lambda>r. r col) ` set (rows df))) \<and>
      (\<not> duplicated col (columns df) \<and> (\<exists>r\<in>set (rows df). is_Str (r col)) \<and>
       (\<exists>r\<in>set (rows df). \<not> is_Str (r col)) \<longrightarrow>
         get_available_contracts nan_sorted dataframes report_type = Inl TypeError))"
proof (intro conjI impI)
  assume "map_of dataframes report_type = None"
  then show "get_available_contracts nan_sorted dataframes report_type = Inr []"
    by (simp add: get_available_contracts_def)
next
  assume "map_of dataframes report_type = Some df \<and> df_empty df"
  then show "get_available_contracts nan_sorted dataframes report_type = Inr []"
    by (simp add: get_available_contracts_def)
next
  assume "map_of dataframes report_type = Some df \<and> find_contract_col (columns df) = None"
  then show "get_available_contracts nan_sorted dataframes report_type = Inr []"
    by (simp add: get_available_contracts_def)
next
  assume a: "map_of dataframes report_type = Some df \<and> \<not> df_empty df \<and>
    find_contract_col (columns df) = Some col"
  let ?P = "\<lambda>c. contains ''market'' (lower c) \<or> contains ''contract'' (lower c)"
  have "find ?P (columns df) = Some col" using a by (simp add: find_contract_col_def)
  then obtain i where i: "i < length (columns df)" "?P (columns df ! i)" "col = columns df ! i"
    "\<forall>j<i. \<not> ?P (columns df ! j)" by (auto simp: find_Some_iff)
  have "columns df = take i (columns df) @ col # drop (Suc i) (columns df)"
    using i by (simp add: id_take_nth_drop)
  moreover have "\<forall>c\<in>set (take i (columns df)). \<not> ?P c"
    using i by (auto simp: in_set_conv_nth)
  ultimately show "\<exists>before after. columns df = before @ col # after \<and>
         (contains ''market'' (lower col) \<or> contains ''contract'' (lower col)) \<and>
         (\<forall>c\<in>set before. \<not> (contains ''market'' (lower c) \<or> contains ''contract'' (lower c)))"
    using i by blast
next
  assume a: "map_of dataframes report_type = Some df \<and> \<not> df_empty df \<and>
    find_contract_col (columns df) = Some col"
  assume "duplicated col (columns df)"
  then show "get_available_contracts nan_sorted dataframes report_type = Inl AttributeError"
    using a by (simp add: get_available_contracts_def)
next
  assume a: "map_of dataframes report_type = Some df \<and> \<not> df_empty df \<and>
    find_contract_col (columns df) = Some col"
  assume b: "\<not> duplicated col (columns df) \<and> (\<forall>r\<in>set (rows df). is_Str (r col))"
  let ?vals = "unique (map (\<lambda>r. r col) (rows df))"
  have eq: "get_available_contracts nan_sorted dataframes report_type = py_sorted nan_sorted ?vals"
    using a b by (simp add: get_available_contracts_def)
  have "\<forall>x\<in>set ?vals. is_Str x" using b by (auto simp: set_unique)
  from py_sorted_strings[OF this, of nan_sorted]
  show "\<exists>ys. get_available_contracts nan_sorted dataframes report_type = Inr ys \<and>
         sorted (map the_Str ys) \<and> distinct ys \<and> set ys = (\<lambda>r. r col) ` set (rows df)"
    using eq distinct_unique[of "map (\<lambda>r. r col) (rows df)"] by (auto simp: set_unique)
next
  assume a: "map_of dataframes report_type = Some df \<and> \<not> df_empty df \<and>
    find_contract_col (columns df) = Some col"
  assume b: "\<not> duplicated col (columns df) \<and> (\<forall>r\<in>set (rows df). is_Num (r col))"
  let ?vals = "unique (map (\<lambda>r. r col) (rows df))"
  have eq: "get_available_contracts nan_sorted dataframes report_type = py_sorted nan_sorted ?vals"
    using a b by (simp add: get_available_contracts_def)
  have "\<forall>x\<in>set ?vals. is_Num x" using b by (auto simp: set_unique)
  from py_sorted_numbers[OF this, of nan_sorted]
  show "\<exists>ys. get_available_contracts nan_sorted dataframes report_type = Inr ys \<and>
         sorted (map the_Num ys) \<and> distinct ys \<and> set ys = (\<lambda>r. r col) ` set (rows df)"
    using eq distinct_unique[of "map (\<lambda>r. r col) (rows df)"] by (auto simp: set_unique)
next
  assume a: "map_of dataframes report_type = Some df \<and> \<not> df_empty df \<and>
    find_contract_col (columns df) = Some col"
  assume b: "\<not> duplicated col (columns df) \<and> (\<exists>r\<in>set (rows df). is_Str (r col)) \<and>
       (\<exists>r\<in>set (rows df). \<not> is_Str (r col))"
  let ?vals = "unique (map (\<lambda>r. r col) (rows df))"
  have eq: "get_available_contracts nan_sorted dataframes report_type = py_sorted nan_sorted ?vals"
    using a b by (simp add: get_available_contracts_def)
  obtain r1 r2 where r: "r1 \<in> set (rows df)" "is_Str (r1 col)" "r2 \<in> set (rows df)"
    "\<not> is_Str (r2 col)" using b by blast
  have "r1 col \<in> set ?vals" "r2 col \<in> set ?vals" using r by (simp_all add: set_unique)
  from py_sorted_mixed[OF this(1) r(2) this(2) r(4), of nan_sorted]
  show "get_available_contracts nan_sorted dataframes report_type = Inl TypeError"
    using eq by simp
qed

text \<open>
  An absent key, an empty table, a table without an identifier column, two contracts,
  a missing identifier, and an identifier column named twice.
\<close>

theorem available_contracts_witness:
  "get_available_contracts (\<lambda>xs. xs) [(''legacy_fut'', contracts_table)] ''legacy_futopt'' = Inr [] \<and>
   get_available_contracts (\<lambda>xs. xs) [(''legacy_fut'', contracts_table\<lparr>rows := []\<rparr>)] ''legacy_fut''
     = Inr [] \<and>
   get_available_contracts (\<lambda>xs. xs) [(''legacy_fut'', unnamed_table)] ''legacy_fut'' = Inr [] \<and>
   (\<exists>ys. get_available_contracts (\<lambda>xs. xs) [(''legacy_fut'', contracts_table)] ''legacy_fut'' =
        Inr ys \<and>
      sorted (map the_Str ys) \<and> distinct ys \<and> set ys = {Str ''GOLD'', Str ''SILVER''}) \<and>
   get_available_contracts (\<lambda>xs. xs) [(''legacy_fut'', anonymous_table)] ''legacy_fut'' =
     Inl TypeError \<and>
   get_available_contracts (\<lambda>xs. xs) [(''legacy_fut'', twice_named_table)] ''legacy_fut'' =
     Inl AttributeError"
proof -
  have c: "find_contract_col (columns unnamed_table) = None" by code_simp
  have d: "find_contract_col (columns contracts_table) = Some ''Market_and_Exchange_Names''"
    by code_simp
  have e: "\<not> df_empty contracts_table" by (simp add: df_empty_def contracts_table_def)
  have f: "\<forall>r\<in>set (rows contracts_table). is_Str (r ''Market_and_Exchange_Names'')"
    by (simp add: contracts_table_def)
  have g: "(\<lambda>r. r ''Market_and_Exchange_Names'') ` set (rows contracts_table) =
      {Str ''GOLD'', Str ''SILVER''}"
    by (auto simp: contracts_table_def)
  have nd: "\<not> duplicated ''Market_and_Exchange_Names'' (columns contracts_table)" by code_simp
  have d2: "find_contract_col (columns anonymous_table) = Some ''Market_and_Exchange_Names''"
    by code_simp
  have e2: "\<not> df_empty anonymous_table" by code_simp
  have nd2: "\<not> duplicated ''Market_and_Exchange_Names'' (columns anonymous_table)" by code_simp
  have s2: "\<exists>r\<in>set (rows anonymous_table). is_Str (r ''Market_and_Exchange_Names'')"
    by code_simp
  have n2: "\<exists>r\<in>set (rows anonymous_table). \<not> is_Str (r ''Market_and_Exchange_Names'')"
    by code_simp
  have d3: "find_contract_col (columns twice_named_table) = Some ''Market_and_Exchange_Names''"
    by code_simp
  have e3: "\<not> df_empty twice_named_table" by code_simp
  have dup3: "duplicated ''Market_and_Exchange_Names'' (columns twice_named_table)" by code_simp
  have 1: "get_available_contracts (\<lambda>xs. xs) [(''legacy_fut'', contracts_table)] ''legacy_futopt''
      = Inr []"
    using available_contracts[of "[(''legacy_fut'', contracts_table)]" "''legacy_futopt''"]
    by simp
  have 2: "get_available_contracts (\<lambda>xs. xs) [(''legacy_fut'', contracts_table\<lparr>rows := []\<rparr>)]
      ''legacy_fut'' = Inr []"
    using available_contracts[of "[(''legacy_fut'', contracts_table\<lparr>rows := []\<rparr>)]"
        "''legacy_fut''" "\<lambda>xs. xs" "contracts_table\<lparr>rows := []\<rparr>"]
    by (simp add: df_empty_def)
  have 3: "get_available_contracts (\<lambda>xs. xs) [(''legacy_fut'', unnamed_table)] ''legacy_fut''
      = Inr []"
    using available_contracts[of "[(''legacy_fut'', unnamed_table)]" "''legacy_fut''" "\<lambda>xs. xs"
        unnamed_table] c
    by simp
  have 4: "\<exists>ys. get_available_contracts (\<lambda>xs. xs) [(''legacy_fut'', contracts_table)]
        ''legacy_fut'' = Inr ys \<and>
      sorted (map the_Str ys) \<and> distinct ys \<and> set ys = {Str ''GOLD'', Str ''SILVER''}"
    using available_contracts[of "[(''legacy_fut'', contracts_table)]" "''legacy_fut''" "\<lambda>xs. xs"
        contracts_table "''Market_and_Exchange_Names''"] d e f g nd
    by simp
  have 5: "get_available_contracts (\<lambda>xs. xs) [(''legacy_fut'', anonymous_table)] ''legacy_fut'' =
     Inl TypeError"
    using available_contracts[of "[(''legacy_fut'', anonymous_table)]" "''legacy_fut''" "\<lambda>xs. xs"
        anonymous_table "''Market_and_Exchange_Names''"] d2 e2 nd2 s2 n2
    by simp
  have 6: "get_available_contracts (\<lambda>xs. xs) [(''legacy_fut'', twice_named_table)] ''legacy_fut'' =
     Inl AttributeError"
    using available_contracts[of "[(''legacy_fut'', twice_named_table)]" "''legacy_fut''"
        "\<lambda>xs. xs" twice_named_table "''Market_and_Exchange_Names''"] d3 e3 dup3
    by simp
  from 1 2 3 4 5 6 show ?thesis by blast
qed

text \<open>
  Claim C10 as stated fails: with a missing identifier in one row the values are
  strings and a missing value, which \<open>sorted\<close> cannot compare, and the function
  raises \<open>TypeError\<close> where the claim has the sorted distinct values and never an
  error.
\<close>

theorem available_contracts_counterexample:
  "map_of [(''legacy_fut'', anonymous_table)] ''legacy_fut'' = Some anonymous_table \<and>
   \<not> df_empty anonymous_table \<and>
   find_contract_col (columns anonymous_table) = Some ''Market_and_Exchange_Names'' \<and>
   column anonymous_table ''Market_and_Exchange_Names'' =
     [Str ''SILVER'', Str ''GOLD'', Str ''SILVER'', Null] \<and>
   (case get_available_contracts (\<lambda>xs. xs) [(''legacy_fut'', anonymous_table)] ''legacy_fut'' of
      Inl err \<Rightarrow> err = TypeError
    | Inr ys \<Rightarrow> False)"
proof -
  have a: "\<not> df_empty anonymous_table" by code_simp
  have b: "find_contract_col (columns anonymous_table) = Some ''Market_and_Exchange_Names''"
    by code_simp
  have c: "column anonymous_table ''Market_and_Exchange_Names'' =
     [Str ''SILVER'', Str ''GOLD'', Str ''SILVER'', Null]" by code_simp
  have d: "(case get_available_contracts (\<lambda>xs. xs) [(''legacy_fut'', anonymous_table)]
        ''legacy_fut'' of
      Inl err \<Rightarrow> err = TypeError
    | Inr ys \<Rightarrow> False)" by code_simp
  from a b c d show ?thesis by simp
qed

section \<open>Claims about consolidation\<close>




end
